theory Spec2Isabelle
  imports Complex_Main "HOL-Library.Char_ord" "HOL-Library.List_Lexorder"
    "HOL-Library.Product_Lexorder" "HOL-Library.Log_Nat"
begin

section \<open>Python values used by the two scripts\<close>

text \<open>
  The development embeds \<^verbatim>\<open>compile_results.py\<close> and \<^verbatim>\<open>create_exact_results.py\<close>.
  Strings are \<^typ>\<open>string\<close>; the logs, file names and CSV cells of the two tools are ASCII,
  and the character classes below are the ASCII part of Python's. A finite float is
  the rational number it denotes (\<open>inf\<close>, \<open>nan\<close> and the sign of zero are outside the
  model). An exception is a value of type \<open>error\<close>; a function that can raise returns
  \<open>error + 'a\<close> with \<open>Inl\<close> for the exception.
\<close>

type_synonym pyfloat = rat

datatype converter = PyInt | PyFloat

datatype error = ValueError converter string | IndexError | NotADirectoryError

subsection \<open>Strings\<close>

definition is_space :: "char \<Rightarrow> bool" where
  "is_space c = (c \<in> set [CHR 0x09, CHR 0x0A, CHR 0x0B, CHR 0x0C, CHR 0x0D,
                            CHR 0x1C, CHR 0x1D, CHR 0x1E, CHR 0x1F, CHR 0x20])"

definition is_digit :: "char \<Rightarrow> bool" where
  "is_digit c = (c \<in> set ''0123456789'')"

definition digit_val :: "char \<Rightarrow> int" where
  "digit_val c = of_char c - 48"

definition strip :: "string \<Rightarrow> string" where
  "strip s = rev (dropWhile is_space (rev (dropWhile is_space s)))"

definition py_lower :: "string \<Rightarrow> string" where
  "py_lower s = map (\<lambda>c. case map_of (zip ''ABCDEFGHIJKLMNOPQRSTUVWXYZ''
                                              ''abcdefghijklmnopqrstuvwxyz'') c of
                            Some d \<Rightarrow> d | None \<Rightarrow> c) s"

definition py_upper :: "string \<Rightarrow> string" where
  "py_upper s = map (\<lambda>c. case map_of (zip ''abcdefghijklmnopqrstuvwxyz''
                                              ''ABCDEFGHIJKLMNOPQRSTUVWXYZ'') c of
                            Some d \<Rightarrow> d | None \<Rightarrow> c) s"

definition startswith :: "string \<Rightarrow> string \<Rightarrow> bool" where
  "startswith s p = (take (length p) s = p)"

definition endswith :: "string \<Rightarrow> string \<Rightarrow> bool" where
  "endswith s p = (length p \<le> length s \<and> drop (length s - length p) s = p)"

text \<open>\<^verbatim>\<open>s.split(sep)\<close> for a one-character separator: never empty, and an empty
  string between two adjacent separators.\<close>

fun split_where :: "(char \<Rightarrow> bool) \<Rightarrow> string \<Rightarrow> string list" where
  "split_where P [] = [[]]"
| "split_where P (x # xs) =
     (if P x then [] # split_where P xs
      else (case split_where P xs of
              [] \<Rightarrow> [[x]]
            | y # ys \<Rightarrow> (x # y) # ys))"

definition split_on :: "char \<Rightarrow> string \<Rightarrow> string list" where
  "split_on c s = split_where (\<lambda>x. x = c) s"

text \<open>\<^verbatim>\<open>s.split()\<close>: the maximal runs of characters that are not white space.\<close>

definition split_ws :: "string \<Rightarrow> string list" where
  "split_ws s = filter (\<lambda>w. w \<noteq> []) (split_where is_space s)"

text \<open>\<^verbatim>\<open>Path(arg).name\<close> of an argument that does not end in a slash: what follows
  the last slash.\<close>

definition path_name :: "string \<Rightarrow> string" where
  "path_name arg = last (split_on CHR ''/'' arg)"

subsection \<open>The builtin \<^verbatim>\<open>int\<close> on a string\<close>

text \<open>
  \<^verbatim>\<open>int(s)\<close> strips white space (tab to carriage return, and the blank; not the
  four separators \<open>0x1C\<close> to \<open>0x1F\<close> that \<^verbatim>\<open>str.strip\<close> removes), reads an
  optional sign and then decimal digits, where single underscores may stand between
  digits; anything else is a \<^verbatim>\<open>ValueError\<close>. (The interpreter's limit on the number
  of digits is above the length of a file name.)
\<close>

definition is_int_space :: "char \<Rightarrow> bool" where
  "is_int_space c = (c \<in> set [CHR 0x09, CHR 0x0A, CHR 0x0B, CHR 0x0C, CHR 0x0D, CHR 0x20])"

fun int_digits :: "string \<Rightarrow> int \<Rightarrow> bool \<Rightarrow> int option" where
  "int_digits [] acc prev = (if prev then Some acc else None)"
| "int_digits (c # cs) acc prev =
     (if is_digit c then int_digits cs (10 * acc + digit_val c) True
      else if c = CHR ''_'' \<and> prev then int_digits cs acc False
      else None)"

definition int_literal :: "string \<Rightarrow> int option" where
  "int_literal t =
     (case t of
        [] \<Rightarrow> None
      | c # cs \<Rightarrow>
          if c = CHR ''-'' then map_option uminus (int_digits cs 0 False)
          else if c = CHR ''+'' then int_digits cs 0 False
          else int_digits t 0 False)"

definition py_int :: "string \<Rightarrow> error + int" where
  "py_int s =
     (case int_literal (rev (dropWhile is_int_space (rev (dropWhile is_int_space s)))) of
        None \<Rightarrow> Inl (ValueError PyInt s)
      | Some i \<Rightarrow> Inr i)"

subsection \<open>Binary64 rounding and fixed-point formatting\<close>

text \<open>
  \<open>round_double\<close> is round-to-nearest, ties-to-even, onto the binary64 grid: 53
  significant bits for a normal number, a spacing of \<open>2 powi (-1074)\<close> below
  \<open>2 powi (-1022)\<close>. Python's \<^verbatim>\<open>int / int\<close> and its \<^verbatim>\<open>+\<close>, \<^verbatim>\<open>-\<close>, \<^verbatim>\<open>*\<close> and \<^verbatim>\<open>/\<close> on
  floats return the exact result rounded this way as long as its magnitude stays
  below \<open>2 ^ 1024\<close> (beyond that Python gives \<open>inf\<close>, which is outside the model).
  An integer operand of a float operation is converted to a float first
  (\<open>float_of_nat\<close>).
\<close>

definition round_half_even :: "rat \<Rightarrow> int" where
  "round_half_even y =
     (let f = \<lfloor>y\<rfloor>; d = y - of_int f
      in if d < 1 / 2 then f
         else if 1 / 2 < d then f + 1
         else if even f then f else f + 1)"

definition floor_log2 :: "rat \<Rightarrow> int" where
  "floor_log2 x =
     (let e0 = bitlen (fst (quotient_of x)) - bitlen (snd (quotient_of x))
      in if 2 powi e0 \<le> x then e0 else e0 - 1)"

definition round_double :: "rat \<Rightarrow> rat" where
  "round_double x =
     (if x = 0 then 0
      else let k = max (floor_log2 \<bar>x\<bar>) (- 1022) - 52
           in sgn x * of_int (round_half_even (\<bar>x\<bar> / 2 powi k)) * 2 powi k)"

definition fadd :: "pyfloat \<Rightarrow> pyfloat \<Rightarrow> pyfloat" where
  "fadd a b = round_double (a + b)"

definition fsub :: "pyfloat \<Rightarrow> pyfloat \<Rightarrow> pyfloat" where
  "fsub a b = round_double (a - b)"

definition fdiv :: "pyfloat \<Rightarrow> pyfloat \<Rightarrow> pyfloat" where
  "fdiv a b = round_double (a / b)"

definition float_of_nat :: "nat \<Rightarrow> pyfloat" where
  "float_of_nat n = round_double (of_nat n)"

text \<open>The decimal digits of a non-negative integer.\<close>

function decimal :: "int \<Rightarrow> string" where
  "decimal n =
     (if n < 10 then [char_of (48 + n)]
      else decimal (n div 10) @ [char_of (48 + n mod 10)])"
  by pat_completeness auto
termination
  by (relation "measure nat") auto

text \<open>\<^verbatim>\<open>f"{x:.<d>f}"\<close>: the value rounded half-to-even to \<open>d\<close> decimals, with the sign
  of \<open>x\<close> kept.\<close>

definition format_fixed :: "nat \<Rightarrow> pyfloat \<Rightarrow> string" where
  "format_fixed d x =
     (let n = round_half_even (\<bar>x\<bar> * 10 ^ d);
          fs = decimal (n mod 10 ^ d)
      in (if x < 0 then ''-'' else '''') @ decimal (n div 10 ^ d) @
         (if d = 0 then '''' else ''.'' @ replicate (d - length fs) CHR ''0'' @ fs))"

section \<open>The collector: \<^verbatim>\<open>compile_results.py\<close>\<close>

subsection \<open>The library calls of the parsers\<close>

text \<open>
  The parsers call \<^verbatim>\<open>re.search\<close>, \<^verbatim>\<open>re.findall\<close> and \<^verbatim>\<open>float\<close>, the writer calls
  \<^verbatim>\<open>str\<close> on a list of floats, and the means call \<^verbatim>\<open>sum\<close> on a list of floats. These
  belong to the interpreter, not to the repository, and are parameters of the model:
  \<open>re_search\<close> gives \<^verbatim>\<open>group(1)\<close> of the first match of a pattern in a text (\<open>None\<close>
  when \<^verbatim>\<open>re.search\<close> returns \<^verbatim>\<open>None\<close>), \<open>re_findall\<close> the pairs of groups found by
  the bracket-pair pattern, \<open>to_float\<close> the value of \<^verbatim>\<open>float(s)\<close> (\<open>None\<close> when it
  raises \<^verbatim>\<open>ValueError\<close>), \<open>str_of_floats\<close> the text of \<^verbatim>\<open>str(xs)\<close>, and \<open>float_sum\<close>
  the value of \<^verbatim>\<open>sum(xs)\<close> on a non-empty list of floats. The rounding of \<^verbatim>\<open>sum\<close>
  depends on the interpreter: up to CPython 3.11 it adds from left to right and
  rounds every addition (\<open>sum_left_to_right\<close> below), from 3.12 on it carries a
  compensation term. The patterns of the source, by name:
  \<^item> \<open>ArgsLine\<close>: \<^verbatim>\<open>^c args:\s+(.+)$\<close> (multi-line)
  \<^item> \<open>ResultLine\<close>: \<^verbatim>\<open>^Result:\s*(\w+)\<close> (multi-line)
  \<^item> \<open>TimeLine\<close>: \<^verbatim>\<open>^Time:\s*([\d.]+)\<close> (multi-line)
  \<^item> \<open>AlphaLower\<close>, \<open>AlphaUpper\<close>:
    \<^verbatim>\<open>initial alpha-crown lower bounds:\s*\[([-\d.,\s]+)\]\<close> and the same with \<^verbatim>\<open>upper\<close>
  \<^item> \<open>CrownLower\<close>, \<open>CrownUpper\<close>:
    \<^verbatim>\<open>initial CROWN lower bounds:\s*\[([-\d.,\s]+)\]\<close> and the same with \<^verbatim>\<open>upper\<close>
  \<^item> \<open>PropertyStatus\<close>: \<^verbatim>\<open>^Property status:\s*(\w+)\<close> (multi-line)
  \<^item> \<open>OutputBounds\<close>: \<^verbatim>\<open>^Output Bounds:\s*\n(.+)\<close> (multi-line)
  \<^item> \<open>RunlimReal\<close>: \<^verbatim>\<open>\[runlim\]\s*real:\s*([\d.]+)\s*seconds\<close>
  \<^item> \<open>RunlimStatus\<close>: \<^verbatim>\<open>\[runlim\]\s*status:\s*(.+)\<close>
  \<^item> \<open>re_findall\<close>: \<^verbatim>\<open>\[([-\d.]+),\s*([-\d.]+)\]\<close>
\<close>

datatype pattern =
    ArgsLine | ResultLine | TimeLine
  | AlphaLower | AlphaUpper | CrownLower | CrownUpper
  | PropertyStatus | OutputBounds | RunlimReal | RunlimStatus

record runtime =
  re_search :: "pattern \<Rightarrow> string \<Rightarrow> string option"
  re_findall :: "string \<Rightarrow> (string \<times> string) list"
  to_float :: "string \<Rightarrow> pyfloat option"
  str_of_floats :: "pyfloat list \<Rightarrow> string"
  float_sum :: "pyfloat list \<Rightarrow> pyfloat"

definition sum_left_to_right :: "pyfloat list \<Rightarrow> pyfloat" where
  "sum_left_to_right xs = foldl fadd 0 xs"

text \<open>\<^verbatim>\<open>float(s)\<close> with its exception.\<close>

definition py_float :: "runtime \<Rightarrow> string \<Rightarrow> error + pyfloat" where
  "py_float rt s = (case to_float rt s of
                      None \<Rightarrow> Inl (ValueError PyFloat s)
                    | Some v \<Rightarrow> Inr v)"

text \<open>\<^verbatim>\<open>[float(x) for x in xs]\<close>: the first failing conversion raises.\<close>

fun float_all :: "runtime \<Rightarrow> string list \<Rightarrow> error + pyfloat list" where
  "float_all rt [] = Inr []"
| "float_all rt (s # ss) =
     (case py_float rt s of
        Inl e \<Rightarrow> Inl e
      | Inr v \<Rightarrow> (case float_all rt ss of
                    Inl e \<Rightarrow> Inl e
                  | Inr vs \<Rightarrow> Inr (v # vs)))"

subsection \<open>Files and directories\<close>

text \<open>
  A path that exists is a readable file with its content, a file that cannot be
  opened or read, or a directory with its entries in the order \<^verbatim>\<open>iterdir\<close> yields
  them. A path that does not exist is \<open>None\<close>.
\<close>

datatype node = File string | Unreadable | Dir "(string \<times> node) list"

subsection \<open>Parsed records\<close>

text \<open>The dictionary \<^verbatim>\<open>result\<close> of the two \<^verbatim>\<open>run.out\<close> parsers (field \<open>data_x\<close> is
  key \<^verbatim>\<open>x\<close>), and that of \<^verbatim>\<open>parse_output_log\<close> (field \<open>log_x\<close> is key \<^verbatim>\<open>x\<close>).\<close>

record run_data =
  data_lower_bounds :: "pyfloat list option"
  data_upper_bounds :: "pyfloat list option"
  data_status :: "string option"
  data_time :: "pyfloat option"
  data_onnx_file :: "string option"
  data_vnnlib_file :: "string option"

record log_data =
  log_wall_time :: "pyfloat option"
  log_timed_out :: bool

text \<open>The job record appended by \<^verbatim>\<open>collect_results_for_tool\<close>.\<close>

record job_record =
  tool :: string
  benchmark :: string
  slurm_id :: string
  onnx_file :: "string option"
  vnnlib_file :: "string option"
  status :: "string option"
  wall_time :: "pyfloat option"
  timed_out :: bool
  has_result :: bool
  bound_width :: "pyfloat option"
  lower_bounds :: "pyfloat list option"
  upper_bounds :: "pyfloat list option"

definition empty_run_data :: run_data where
  "empty_run_data =
     \<lparr>data_lower_bounds = None, data_upper_bounds = None, data_status = None,
      data_time = None, data_onnx_file = None, data_vnnlib_file = None\<rparr>"

definition empty_log_data :: log_data where
  "empty_log_data = \<lparr>log_wall_time = None, log_timed_out = False\<rparr>"

subsection \<open>Sequencing of calls that can raise\<close>

definition and_then :: "error + 'a \<Rightarrow> ('a \<Rightarrow> error + 'b) \<Rightarrow> error + 'b" where
  "and_then r f = (case r of Inl e \<Rightarrow> Inl e | Inr v \<Rightarrow> f v)"

subsection \<open>The parsers\<close>

definition parse_args_line :: "runtime \<Rightarrow> string \<Rightarrow> string option \<times> string option" where
  "parse_args_line rt content =
     (case re_search rt ArgsLine content of
        None \<Rightarrow> (None, None)
      | Some g \<Rightarrow>
          foldl (\<lambda>(onnx, vnnlib) arg.
                   if endswith arg ''.onnx'' then (Some (path_name arg), vnnlib)
                   else if endswith arg ''.vnnlib'' then (onnx, Some (path_name arg))
                   else (onnx, vnnlib))
                (None, None) (split_ws (strip g)))"

text \<open>The status of a \<^verbatim>\<open>run.out\<close> of abcrown (source lines 54 to 62).\<close>

definition abcrown_status :: "runtime \<Rightarrow> string \<Rightarrow> string option" where
  "abcrown_status rt content =
     (case re_search rt ResultLine content of
        None \<Rightarrow> None
      | Some g \<Rightarrow>
          (let st = py_lower g
           in if st = ''unsat'' then Some ''verified'' else Some st))"

text \<open>The status of a \<^verbatim>\<open>run.out\<close> of luna (source lines 108 to 128): the
  \<^verbatim>\<open>Result:\<close> line first, the older \<^verbatim>\<open>Property status:\<close> line only when the first
  left the status unset.\<close>

definition luna_status :: "runtime \<Rightarrow> string \<Rightarrow> string option" where
  "luna_status rt content =
     (case (case re_search rt ResultLine content of
              None \<Rightarrow> None
            | Some g \<Rightarrow>
                (let st = py_lower g
                 in if st \<in> set [''unsat'', ''sat''] then Some ''verified''
                    else Some ''unknown'')) of
        Some s \<Rightarrow> Some s
      | None \<Rightarrow>
          (case re_search rt PropertyStatus content of
             None \<Rightarrow> None
           | Some g \<Rightarrow>
               (let st = py_upper g
                in if st \<in> set [''VERIFIED'', ''VIOLATED''] then Some ''verified''
                   else Some ''unknown'')))"

text \<open>A bracketed list of abcrown: the group split at commas, every piece
  converted; a \<^verbatim>\<open>ValueError\<close> is caught and leaves the field unset.\<close>

definition abcrown_bounds :: "runtime \<Rightarrow> string option \<Rightarrow> pyfloat list option" where
  "abcrown_bounds rt m =
     (case m of
        None \<Rightarrow> None
      | Some g \<Rightarrow>
          (case float_all rt (map strip (split_on CHR '','' g)) of
             Inl e \<Rightarrow> None
           | Inr vs \<Rightarrow> Some vs))"

definition parse_abcrown_run_out :: "runtime \<Rightarrow> node \<Rightarrow> error + run_data" where
  "parse_abcrown_run_out rt filepath =
     (case filepath of
        File content \<Rightarrow>
          and_then
            (case re_search rt TimeLine content of
               None \<Rightarrow> Inr None
             | Some g \<Rightarrow> and_then (py_float rt g) (\<lambda>t. Inr (Some t)))
            (\<lambda>tm.
               let lower_match = (case re_search rt AlphaLower content of
                                    Some g \<Rightarrow> Some g
                                  | None \<Rightarrow> re_search rt CrownLower content);
                   upper_match = (case re_search rt AlphaUpper content of
                                    Some g \<Rightarrow> Some g
                                  | None \<Rightarrow> re_search rt CrownUpper content)
               in Inr \<lparr>data_lower_bounds = abcrown_bounds rt lower_match,
                        data_upper_bounds = abcrown_bounds rt upper_match,
                        data_status = abcrown_status rt content,
                        data_time = tm,
                        data_onnx_file = fst (parse_args_line rt content),
                        data_vnnlib_file = snd (parse_args_line rt content)\<rparr>)
      | _ \<Rightarrow> Inr empty_run_data)"

text \<open>The bracket pairs of luna on the line after \<^verbatim>\<open>Output Bounds:\<close>; here a failing
  \<^verbatim>\<open>float\<close> is not caught.\<close>

definition luna_bounds ::
  "runtime \<Rightarrow> string \<Rightarrow> error + (pyfloat list option \<times> pyfloat list option)" where
  "luna_bounds rt content =
     (case re_search rt OutputBounds content of
        None \<Rightarrow> Inr (None, None)
      | Some g \<Rightarrow>
          (let pairs = re_findall rt (strip g)
           in if pairs = [] then Inr (None, None)
              else and_then (float_all rt (map fst pairs)) (\<lambda>ls.
                   and_then (float_all rt (map snd pairs)) (\<lambda>us.
                   Inr (Some ls, Some us)))))"

definition parse_luna_run_out :: "runtime \<Rightarrow> node \<Rightarrow> error + run_data" where
  "parse_luna_run_out rt filepath =
     (case filepath of
        File content \<Rightarrow>
          and_then (luna_bounds rt content) (\<lambda>(lo, up).
            Inr \<lparr>data_lower_bounds = lo,
                 data_upper_bounds = up,
                 data_status = luna_status rt content,
                 data_time = None,
                 data_onnx_file = fst (parse_args_line rt content),
                 data_vnnlib_file = snd (parse_args_line rt content)\<rparr>)
      | _ \<Rightarrow> Inr empty_run_data)"

definition parse_output_log :: "runtime \<Rightarrow> node \<Rightarrow> error + log_data" where
  "parse_output_log rt filepath =
     (case filepath of
        File content \<Rightarrow>
          and_then
            (case re_search rt RunlimReal content of
               None \<Rightarrow> Inr None
             | Some g \<Rightarrow> and_then (py_float rt g) (\<lambda>t. Inr (Some t)))
            (\<lambda>wt.
               Inr \<lparr>log_wall_time = wt,
                    log_timed_out =
                      (case re_search rt RunlimStatus content of
                         None \<Rightarrow> False
                       | Some g \<Rightarrow> py_lower (strip g) = ''out of time'')\<rparr>)
      | _ \<Rightarrow> Inr empty_log_data)"

subsection \<open>Bound width\<close>

text \<open>
  \<^verbatim>\<open>not lower_bounds\<close> is true of \<^verbatim>\<open>None\<close> and of the empty list. Every width is a
  float subtraction, their sum is the interpreter's \<^verbatim>\<open>sum\<close>, and the division is a
  float division by the length.
\<close>

definition compute_bound_width ::
  "runtime \<Rightarrow> pyfloat list option \<Rightarrow> pyfloat list option \<Rightarrow> pyfloat option" where
  "compute_bound_width rt lower upper =
     (case lower of
        None \<Rightarrow> None
      | Some ls \<Rightarrow>
          (case upper of
             None \<Rightarrow> None
           | Some us \<Rightarrow>
               if ls = [] \<or> us = [] then None
               else if length ls \<noteq> length us then None
               else (let widths = map (\<lambda>(l, u). fsub u l) (zip ls us)
                     in Some (fdiv (float_sum rt widths)
                                   (float_of_nat (length widths))))))"

subsection \<open>Walking the result directories\<close>

text \<open>The key of the sort of the job directories (source line 208): computed for
  every entry of the benchmark directory, a file or a directory.\<close>

definition slurm_component :: "string \<Rightarrow> error + string" where
  "slurm_component name =
     (case split_on CHR ''-'' name of
        a # b # rest \<Rightarrow> Inr b
      | _ \<Rightarrow> Inl IndexError)"

definition slurm_sort_key :: "string \<Rightarrow> error + int" where
  "slurm_sort_key name =
     (if startswith name ''slurm-'' then and_then (slurm_component name) py_int
      else Inr 0)"

fun sort_keys :: "(string \<times> node) list \<Rightarrow> error + int list" where
  "sort_keys [] = Inr []"
| "sort_keys (e # es) =
     and_then (slurm_sort_key (fst e)) (\<lambda>k.
     and_then (sort_keys es) (\<lambda>ks. Inr (k # ks)))"

text \<open>\<^verbatim>\<open>sorted(benchmark_dir.iterdir(), key=...)\<close>: all keys first, then a stable sort.\<close>

definition sorted_jobs :: "(string \<times> node) list \<Rightarrow> error + (string \<times> node) list" where
  "sorted_jobs es =
     and_then (sort_keys es) (\<lambda>ks. Inr (map snd (sort_key fst (zip ks es))))"

text \<open>The record built from the two parsed logs (source lines 230 to 251).\<close>

definition job_record_of ::
  "runtime \<Rightarrow> string \<Rightarrow> string \<Rightarrow> string \<Rightarrow> run_data \<Rightarrow> log_data \<Rightarrow> job_record" where
  "job_record_of rt tool_name benchmark_name sid data lg =
     (let bw = compute_bound_width rt (data_lower_bounds data) (data_upper_bounds data);
          has_bounds = (data_lower_bounds data \<noteq> None \<and> data_upper_bounds data \<noteq> None)
      in \<lparr>tool = tool_name,
          benchmark = benchmark_name,
          slurm_id = sid,
          onnx_file = data_onnx_file data,
          vnnlib_file = data_vnnlib_file data,
          status = data_status data,
          wall_time = log_wall_time lg,
          timed_out = log_timed_out lg,
          has_result = (log_timed_out lg \<or> has_bounds),
          bound_width = bw,
          lower_bounds = data_lower_bounds data,
          upper_bounds = data_upper_bounds data\<rparr>)"

text \<open>One pass of the inner loop: no record for an entry that is not a directory,
  whose name does not start with \<^verbatim>\<open>slurm-\<close>, or that has no \<^verbatim>\<open>run.out\<close>.\<close>

definition collect_job ::
  "runtime \<Rightarrow> string \<Rightarrow> string \<Rightarrow> string \<times> node \<Rightarrow> error + job_record list" where
  "collect_job rt tool_name benchmark_name e =
     (case snd e of
        Dir files \<Rightarrow>
          if \<not> startswith (fst e) ''slurm-'' then Inr []
          else
            and_then (slurm_component (fst e)) (\<lambda>sid.
              case map_of files ''run.out'' of
                None \<Rightarrow> Inr []
              | Some run_out \<Rightarrow>
                  and_then
                    (case map_of files ''output.log'' of
                       None \<Rightarrow> Inr empty_log_data
                     | Some output_log \<Rightarrow> parse_output_log rt output_log)
                    (\<lambda>lg.
                  and_then
                    (if tool_name = ''abcrown'' then parse_abcrown_run_out rt run_out
                     else parse_luna_run_out rt run_out)
                    (\<lambda>data.
                  Inr [job_record_of rt tool_name benchmark_name sid data lg])))
      | _ \<Rightarrow> Inr [])"

fun collect_jobs ::
  "runtime \<Rightarrow> string \<Rightarrow> string \<Rightarrow> (string \<times> node) list \<Rightarrow> error + job_record list" where
  "collect_jobs rt tool_name benchmark_name [] = Inr []"
| "collect_jobs rt tool_name benchmark_name (e # es) =
     and_then (collect_job rt tool_name benchmark_name e) (\<lambda>r.
     and_then (collect_jobs rt tool_name benchmark_name es) (\<lambda>rs. Inr (r @ rs)))"

text \<open>One pass of the outer loop: an entry that is not a directory, or is named
  \<^verbatim>\<open>options\<close>, is passed over before its entries are sorted.\<close>

definition collect_benchmark ::
  "runtime \<Rightarrow> string \<Rightarrow> string \<times> node \<Rightarrow> error + job_record list" where
  "collect_benchmark rt tool_name b =
     (case snd b of
        Dir es \<Rightarrow>
          if fst b = ''options'' then Inr []
          else and_then (sorted_jobs es) (collect_jobs rt tool_name (fst b))
      | _ \<Rightarrow> Inr [])"

fun collect_benchmarks ::
  "runtime \<Rightarrow> string \<Rightarrow> (string \<times> node) list \<Rightarrow> error + job_record list" where
  "collect_benchmarks rt tool_name [] = Inr []"
| "collect_benchmarks rt tool_name (b # bs) =
     and_then (collect_benchmark rt tool_name b) (\<lambda>r.
     and_then (collect_benchmarks rt tool_name bs) (\<lambda>rs. Inr (r @ rs)))"

definition collect_results_for_tool ::
  "runtime \<Rightarrow> string \<Rightarrow> node option \<Rightarrow> error + job_record list" where
  "collect_results_for_tool rt tool_name tool_path =
     (case tool_path of
        None \<Rightarrow> Inr []
      | Some (Dir es) \<Rightarrow> collect_benchmarks rt tool_name (sort_key fst es)
      | Some _ \<Rightarrow> Inl NotADirectoryError)"

subsection \<open>The per-instance table\<close>

text \<open>
  The dictionary \<^verbatim>\<open>row\<close> handed to the CSV writer (field \<open>row_x\<close> is column \<^verbatim>\<open>x\<close>).
  \<^verbatim>\<open>v or ""\<close> and \<^verbatim>\<open>... if v else ...\<close> test the truth value of \<^verbatim>\<open>v\<close>: \<^verbatim>\<open>None\<close>, the
  empty string, the empty list and the float zero are false.
\<close>

record instance_row =
  row_tool :: string
  row_benchmark :: string
  row_slurm_id :: string
  row_onnx_file :: string
  row_vnnlib_file :: string
  row_status :: string
  row_timed_out :: string
  row_wall_time :: string
  row_bound_width :: string
  row_lower_bounds :: string
  row_upper_bounds :: string

definition str_or_empty :: "string option \<Rightarrow> string" where
  "str_or_empty v = (case v of None \<Rightarrow> '''' | Some s \<Rightarrow> s)"

definition bounds_cell :: "runtime \<Rightarrow> pyfloat list option \<Rightarrow> string" where
  "bounds_cell rt v =
     (case v of
        None \<Rightarrow> ''--''
      | Some xs \<Rightarrow> if xs = [] then ''--'' else str_of_floats rt xs)"

definition instance_row_of :: "runtime \<Rightarrow> job_record \<Rightarrow> instance_row" where
  "instance_row_of rt r =
     \<lparr>row_tool = tool r,
      row_benchmark = benchmark r,
      row_slurm_id = slurm_id r,
      row_onnx_file = str_or_empty (onnx_file r),
      row_vnnlib_file = str_or_empty (vnnlib_file r),
      row_status = str_or_empty (status r),
      row_timed_out = (if timed_out r then ''TO'' else ''''),
      row_wall_time = (case wall_time r of
                         None \<Rightarrow> ''''
                       | Some t \<Rightarrow> if t = 0 then '''' else format_fixed 4 t),
      row_bound_width = (case bound_width r of
                           None \<Rightarrow> ''--''
                         | Some w \<Rightarrow> format_fixed 6 w),
      row_lower_bounds = bounds_cell rt (lower_bounds r),
      row_upper_bounds = bounds_cell rt (upper_bounds r)\<rparr>"

definition fieldnames :: "string list" where
  "fieldnames = [''tool'', ''benchmark'', ''slurm_id'', ''onnx_file'', ''vnnlib_file'',
                 ''status'', ''timed_out'', ''wall_time'', ''bound_width'',
                 ''lower_bounds'', ''upper_bounds'']"

definition cells :: "instance_row \<Rightarrow> string list" where
  "cells w = [row_tool w, row_benchmark w, row_slurm_id w, row_onnx_file w,
              row_vnnlib_file w, row_status w, row_timed_out w, row_wall_time w,
              row_bound_width w, row_lower_bounds w, row_upper_bounds w]"

text \<open>The table written to \<^verbatim>\<open>output_path\<close>: the header, then one line of cells per
  record, in the order of \<open>fieldnames\<close>.\<close>

definition write_instance_csv :: "runtime \<Rightarrow> job_record list \<Rightarrow> string list list" where
  "write_instance_csv rt results = fieldnames # map (\<lambda>r. cells (instance_row_of rt r)) results"

subsection \<open>Common instances\<close>

definition instance_key :: "job_record \<Rightarrow> string \<times> string" where
  "instance_key r = (benchmark r, slurm_id r)"

definition filter_common_instances ::
  "job_record list \<Rightarrow> job_record list \<Rightarrow> job_record list \<times> job_record list" where
  "filter_common_instances abcrown_results luna_results =
     (let abcrown_valid = set (map instance_key (filter has_result abcrown_results));
          luna_valid = set (map instance_key (filter has_result luna_results));
          common = abcrown_valid \<inter> luna_valid
      in (filter (\<lambda>r. instance_key r \<in> common) abcrown_results,
          filter (\<lambda>r. instance_key r \<in> common) luna_results))"

definition get_common_bounds_instances ::
  "job_record list \<Rightarrow> job_record list \<Rightarrow> (string \<times> string) set" where
  "get_common_bounds_instances abcrown_results luna_results =
     (let abcrown_with_bounds =
            set (map instance_key (filter (\<lambda>r. bound_width r \<noteq> None) abcrown_results));
          luna_with_bounds =
            set (map instance_key (filter (\<lambda>r. bound_width r \<noteq> None) luna_results))
      in abcrown_with_bounds \<inter> luna_with_bounds)"

definition get_common_finished_instances ::
  "job_record list \<Rightarrow> job_record list \<Rightarrow> (string \<times> string) set" where
  "get_common_finished_instances abcrown_results luna_results =
     (let abcrown_solved =
            set (map instance_key (filter (\<lambda>r. bound_width r \<noteq> None) abcrown_results));
          luna_solved =
            set (map instance_key (filter (\<lambda>r. bound_width r \<noteq> None) luna_results))
      in abcrown_solved \<inter> luna_solved)"

subsection \<open>Aggregates by benchmark\<close>

text \<open>
  \<^verbatim>\<open>count / total * 100\<close> (\<open>percentage\<close>) divides two integers (the quotient rounded
  to binary64) and multiplies the float by \<^verbatim>\<open>100\<close> (the product rounded again). A
  mean is the interpreter's \<^verbatim>\<open>sum\<close> divided by the length, as in
  \<open>compute_bound_width\<close>.
\<close>

definition percentage :: "nat \<Rightarrow> nat \<Rightarrow> pyfloat" where
  "percentage cnt tot =
     (if tot > 0 then round_double (round_double (of_nat cnt / of_nat tot) * 100)
      else 0)"

definition mean :: "runtime \<Rightarrow> pyfloat list \<Rightarrow> pyfloat option" where
  "mean rt xs =
     (if xs = [] then None
      else Some (fdiv (float_sum rt xs) (float_of_nat (length xs))))"

record aggregate_row =
  agg_benchmark :: string
  total_instances :: nat
  solved_count :: nat
  solved_pct :: pyfloat
  timeout_count :: nat
  timeout_pct :: pyfloat
  verified_count :: nat
  verified_pct :: pyfloat
  avg_bound_width :: "pyfloat option"
  avg_lower_bound :: "pyfloat option"
  avg_upper_bound :: "pyfloat option"
  avg_runtime :: "pyfloat option"

text \<open>The means of the non-empty bound lists of a list of records.\<close>

definition list_means :: "runtime \<Rightarrow> pyfloat list option list \<Rightarrow> pyfloat list" where
  "list_means rt vs =
     concat (map (\<lambda>v. case v of
                         None \<Rightarrow> []
                       | Some xs \<Rightarrow> if xs = [] then []
                                    else [fdiv (float_sum rt xs)
                                               (float_of_nat (length xs))]) vs)"

definition aggregate_of ::
  "runtime \<Rightarrow> (string \<times> string) set option \<Rightarrow> (string \<times> string) set option \<Rightarrow>
   string \<Rightarrow> job_record list \<Rightarrow> aggregate_row" where
  "aggregate_of rt common_bounds_instances common_finished_instances bname instances =
     (let tot = length instances;
          solved = length (filter (\<lambda>i. bound_width i \<noteq> None) instances);
          timeout = length (filter (\<lambda>i. bound_width i = None) instances);
          verified = length (filter (\<lambda>i. status i = Some ''verified'') instances);
          common_bounds =
            (case common_bounds_instances of
               Some keys \<Rightarrow> filter (\<lambda>i. instance_key i \<in> keys) instances
             | None \<Rightarrow> filter (\<lambda>i. bound_width i \<noteq> None \<and> \<not> timed_out i) instances);
          common_finished =
            (case common_finished_instances of
               Some keys \<Rightarrow> filter (\<lambda>i. instance_key i \<in> keys) instances
             | None \<Rightarrow> filter (\<lambda>i. wall_time i \<noteq> None) instances)
      in \<lparr>agg_benchmark = bname,
          total_instances = tot,
          solved_count = solved,
          solved_pct = percentage solved tot,
          timeout_count = timeout,
          timeout_pct = percentage timeout tot,
          verified_count = verified,
          verified_pct = percentage verified tot,
          avg_bound_width = mean rt (concat (map (\<lambda>i. case bound_width i of
                                                      None \<Rightarrow> [] | Some w \<Rightarrow> [w])
                                             common_bounds)),
          avg_lower_bound = mean rt (list_means rt (map lower_bounds common_bounds)),
          avg_upper_bound = mean rt (list_means rt (map upper_bounds common_bounds)),
          avg_runtime = mean rt (concat (map (\<lambda>i. case wall_time i of
                                                  None \<Rightarrow> [] | Some t \<Rightarrow> [t])
                                         common_finished))\<rparr>)"

text \<open>The records are grouped by benchmark in their order; the groups are visited
  in the order of the benchmark names.\<close>

definition compute_aggregates ::
  "runtime \<Rightarrow> job_record list \<Rightarrow> (string \<times> string) set option \<Rightarrow>
   (string \<times> string) set option \<Rightarrow> aggregate_row list" where
  "compute_aggregates rt results common_bounds_instances common_finished_instances =
     map (\<lambda>b. aggregate_of rt common_bounds_instances common_finished_instances b
                 (filter (\<lambda>r. benchmark r = b) results))
         (sorted_list_of_set (set (map benchmark results)))"

section \<open>The joiner: \<^verbatim>\<open>create_exact_results.py\<close>\<close>

text \<open>
  A line of an instances table as \<^verbatim>\<open>csv.DictReader\<close> yields it (field \<open>in_x\<close> is column
  \<^verbatim>\<open>x\<close>), the dictionary stored per key (field \<open>inst_x\<close> is key \<^verbatim>\<open>x\<close>), and the
  dictionary \<^verbatim>\<open>row\<close> written per key (\<open>j_onnx_file\<close> and \<open>j_vnnlib_file\<close> are the
  columns \<^verbatim>\<open>onnx_file\<close> and \<^verbatim>\<open>vnnlib_file\<close>). A Python dictionary is an association
  list with one entry per key, in insertion order.
\<close>

record table_line =
  in_benchmark :: string
  in_onnx_file :: string
  in_vnnlib_file :: string
  in_bound_width :: string
  in_wall_time :: string
  in_status :: string
  in_timed_out :: string

record instance_entry =
  inst_bound_width :: string
  inst_wall_time :: string
  inst_status :: string
  inst_timed_out :: string

record joined_row =
  j_onnx_file :: string
  j_vnnlib_file :: string
  abcrown_bound_width :: string
  luna_bound_width :: string
  abcrown_runtime :: string
  luna_runtime :: string

type_synonym instances = "((string \<times> string \<times> string) \<times> instance_entry) list"

text \<open>\<^verbatim>\<open>instances[key] = ...\<close>: a new key goes to the end, a known key keeps its
  place and takes the new value.\<close>

fun dict_set :: "'k \<Rightarrow> 'v \<Rightarrow> ('k \<times> 'v) list \<Rightarrow> ('k \<times> 'v) list" where
  "dict_set k v [] = [(k, v)]"
| "dict_set k v (p # ps) = (if fst p = k then (k, v) # ps else p # dict_set k v ps)"

definition parse_instances :: "table_line list \<Rightarrow> instances" where
  "parse_instances lines =
     foldl (\<lambda>instances row.
              dict_set (in_benchmark row, in_onnx_file row, in_vnnlib_file row)
                \<lparr>inst_bound_width = in_bound_width row,
                 inst_wall_time = in_wall_time row,
                 inst_status = in_status row,
                 inst_timed_out = in_timed_out row\<rparr> instances)
           [] lines"

text \<open>\<^verbatim>\<open>d.get(key, {}).get(field, '')\<close>.\<close>

definition get_field :: "instances \<Rightarrow> string \<times> string \<times> string \<Rightarrow> (instance_entry \<Rightarrow> string) \<Rightarrow> string" where
  "get_field d key field = (case map_of d key of None \<Rightarrow> '''' | Some i \<Rightarrow> field i)"

definition instance_keys :: "instances \<Rightarrow> instances \<Rightarrow> string \<Rightarrow> (string \<times> string) set" where
  "instance_keys abcrown_instances luna_instances bname =
     set (map (\<lambda>key. (fst (snd key), snd (snd key)))
              (filter (\<lambda>key. fst key = bname) (map fst abcrown_instances)))
     \<union> set (map (\<lambda>key. (fst (snd key), snd (snd key)))
                (filter (\<lambda>key. fst key = bname) (map fst luna_instances)))"

definition benchmark_data :: "instances \<Rightarrow> instances \<Rightarrow> string \<Rightarrow> joined_row list" where
  "benchmark_data abcrown_instances luna_instances bname =
     map (\<lambda>(onnx, vnnlib).
            \<lparr>j_onnx_file = onnx,
             j_vnnlib_file = vnnlib,
             abcrown_bound_width = get_field abcrown_instances (bname, onnx, vnnlib) inst_bound_width,
             luna_bound_width = get_field luna_instances (bname, onnx, vnnlib) inst_bound_width,
             abcrown_runtime = get_field abcrown_instances (bname, onnx, vnnlib) inst_wall_time,
             luna_runtime = get_field luna_instances (bname, onnx, vnnlib) inst_wall_time\<rparr>)
         (sorted_list_of_set (instance_keys abcrown_instances luna_instances bname))"

definition benchmarks :: "instances \<Rightarrow> instances \<Rightarrow> string set" where
  "benchmarks abcrown_instances luna_instances =
     set (map (\<lambda>p. fst (fst p)) abcrown_instances) \<union> set (map (\<lambda>p. fst (fst p)) luna_instances)"

text \<open>The files written by the main loop: for every benchmark, in order, the rows
  of \<^verbatim>\<open><benchmark>_results.csv\<close>.\<close>

definition join_instances :: "instances \<Rightarrow> instances \<Rightarrow> (string \<times> joined_row list) list" where
  "join_instances abcrown_instances luna_instances =
     map (\<lambda>b. (b, benchmark_data abcrown_instances luna_instances b))
         (sorted_list_of_set (benchmarks abcrown_instances luna_instances))"

definition main :: "table_line list \<Rightarrow> table_line list \<Rightarrow> (string \<times> joined_row list) list" where
  "main abcrown_lines luna_lines =
     join_instances (parse_instances abcrown_lines) (parse_instances luna_lines)"

section \<open>Sample logs and result directories\<close>

text \<open>
  Five short logs, and what the interpreter's \<^verbatim>\<open>re.search\<close>, \<^verbatim>\<open>re.findall\<close>, \<^verbatim>\<open>float\<close>
  and \<^verbatim>\<open>str\<close> return on them; \<^verbatim>\<open>sum\<close> is that of CPython 3.11. \<open>ragged_log\<close> is a
  log of abcrown whose two bracketed lists differ in length; \<open>tenths_log\<close> has the
  bounds \<open>[0.1, 0.2]\<close> and \<open>[0.3, 0.5]\<close>, none of which is a binary64 number except
  \<open>0.5\<close>.
\<close>

definition abcrown_log :: string where
  "abcrown_log = ''c args: --onnx models/net.onnx --vnnlib props/prop_1.vnnlib\<newline>Result: unsat\<newline>Time: 1.5\<newline>initial alpha-crown lower bounds: [0.5, 1.0]\<newline>initial alpha-crown upper bounds: [1.5, 3.0]\<newline>''"

definition luna_log :: string where
  "luna_log = ''c args: models/net.onnx props/prop_1.vnnlib\<newline>Result: sat\<newline>Output Bounds:\<newline>[0.5, 1.5] [1.0, 3.0]\<newline>''"

definition ragged_log :: string where
  "ragged_log = ''Result: unknown\<newline>initial alpha-crown lower bounds: [1.0]\<newline>initial alpha-crown upper bounds: [1.0, 2.0]\<newline>''"

definition tenths_log :: string where
  "tenths_log = ''Result: unsat\<newline>initial alpha-crown lower bounds: [0.1, 0.2]\<newline>initial alpha-crown upper bounds: [0.3, 0.5]\<newline>''"

definition timing_log :: string where
  "timing_log = ''[runlim] real: 11.5 seconds\<newline>[runlim] status: ok\<newline>''"

definition sample_search :: "pattern \<Rightarrow> string \<Rightarrow> string option" where
  "sample_search p c =
     (if c = abcrown_log then
        map_of [(ArgsLine, ''--onnx models/net.onnx --vnnlib props/prop_1.vnnlib''),
                (ResultLine, ''unsat''), (TimeLine, ''1.5''),
                (AlphaLower, ''0.5, 1.0''), (AlphaUpper, ''1.5, 3.0'')] p
      else if c = luna_log then
        map_of [(ArgsLine, ''models/net.onnx props/prop_1.vnnlib''),
                (ResultLine, ''sat''), (OutputBounds, ''[0.5, 1.5] [1.0, 3.0]'')] p
      else if c = ragged_log then
        map_of [(ResultLine, ''unknown''), (AlphaLower, ''1.0''), (AlphaUpper, ''1.0, 2.0'')] p
      else if c = tenths_log then
        map_of [(ResultLine, ''unsat''), (AlphaLower, ''0.1, 0.2''), (AlphaUpper, ''0.3, 0.5'')] p
      else if c = timing_log then
        map_of [(RunlimReal, ''11.5''), (RunlimStatus, ''ok'')] p
      else None)"

definition sample_runtime :: runtime where
  "sample_runtime =
     \<lparr>re_search = sample_search,
      re_findall = (\<lambda>s. if s = ''[0.5, 1.5] [1.0, 3.0]''
                         then [(''0.5'', ''1.5''), (''1.0'', ''3.0'')] else []),
      to_float = map_of [(''0.5'', 1 / 2), (''1.0'', 1), (''1.5'', 3 / 2), (''2.0'', 2),
                         (''3.0'', 3), (''11.5'', 23 / 2),
                         (''0.1'', round_double (1 / 10)), (''0.2'', round_double (2 / 10)),
                         (''0.3'', round_double (3 / 10))],
      str_of_floats = (\<lambda>xs. case map_of [([1 / 2, 1], ''[0.5, 1.0]''),
                                             ([3 / 2, 3], ''[1.5, 3.0]''),
                                             ([1], ''[1.0]''),
                                             ([1, 2], ''[1.0, 2.0]'')] xs of
                                 Some s \<Rightarrow> s | None \<Rightarrow> ''''),
      float_sum = sum_left_to_right\<rparr>"

definition abcrown_tree :: node where
  "abcrown_tree =
     Dir [(''mnist'', Dir [(''slurm-1'', Dir [(''run.out'', File abcrown_log),
                                                (''output.log'', File timing_log)])])]"

definition luna_tree :: node where
  "luna_tree =
     Dir [(''mnist'', Dir [(''slurm-1'', Dir [(''run.out'', File luna_log),
                                                (''output.log'', File timing_log)])])]"

definition ragged_tree :: node where
  "ragged_tree =
     Dir [(''mnist'', Dir [(''slurm-1'', Dir [(''run.out'', File ragged_log),
                                                (''output.log'', File timing_log)])])]"

definition tenths_tree :: node where
  "tenths_tree =
     Dir [(''B1'', Dir [(''slurm-1'', Dir [(''run.out'', File tenths_log)])])]"

definition broken_tree :: node where
  "broken_tree =
     Dir [(''mnist'', Dir [(''slurm-1'', Dir [(''run.out'', File abcrown_log)]),
                           (''slurm-abc'', Dir [])])]"

definition ragged_record :: job_record where
  "ragged_record =
     \<lparr>tool = ''abcrown'', benchmark = ''mnist'', slurm_id = ''1'',
      onnx_file = None, vnnlib_file = None, status = Some ''unknown'',
      wall_time = Some (23 / 2), timed_out = False, has_result = True,
      bound_width = None, lower_bounds = Some [1], upper_bounds = Some [1, 2]\<rparr>"

definition luna_record :: job_record where
  "luna_record =
     \<lparr>tool = ''luna'', benchmark = ''mnist'', slurm_id = ''1'',
      onnx_file = Some ''net.onnx'', vnnlib_file = Some ''prop_1.vnnlib'',
      status = Some ''verified'', wall_time = Some (23 / 2), timed_out = False,
      has_result = True, bound_width = Some (3 / 2),
      lower_bounds = Some [1 / 2, 1], upper_bounds = Some [3 / 2, 3]\<rparr>"

definition abcrown_record :: job_record where
  "abcrown_record =
     \<lparr>tool = ''abcrown'', benchmark = ''mnist'', slurm_id = ''1'',
      onnx_file = Some ''net.onnx'', vnnlib_file = Some ''prop_1.vnnlib'',
      status = Some ''verified'', wall_time = Some (23 / 2), timed_out = False,
      has_result = True, bound_width = Some (3 / 2),
      lower_bounds = Some [1 / 2, 1], upper_bounds = Some [3 / 2, 3]\<rparr>"

definition tenths_record :: job_record where
  "tenths_record =
     \<lparr>tool = ''abcrown'', benchmark = ''B1'', slurm_id = ''1'',
      onnx_file = None, vnnlib_file = None, status = Some ''verified'',
      wall_time = None, timed_out = False, has_result = True,
      bound_width = Some (1 / 4),
      lower_bounds = Some [round_double (1 / 10), round_double (2 / 10)],
      upper_bounds = Some [round_double (3 / 10), 1 / 2]\<rparr>"

definition abcrown_lines :: "table_line list" where
  "abcrown_lines =
     [\<lparr>in_benchmark = ''mnist'', in_onnx_file = ''net.onnx'', in_vnnlib_file = ''prop_1.vnnlib'',
       in_bound_width = ''1.500000'', in_wall_time = ''11.5000'', in_status = ''verified'',
       in_timed_out = ''''\<rparr>]"

definition luna_lines :: "table_line list" where
  "luna_lines =
     [\<lparr>in_benchmark = ''mnist'', in_onnx_file = ''net.onnx'', in_vnnlib_file = ''prop_2.vnnlib'',
       in_bound_width = ''--'', in_wall_time = ''60.0000'', in_status = ''unknown'',
       in_timed_out = ''TO''\<rparr>,
      \<lparr>in_benchmark = ''mnist'', in_onnx_file = ''net.onnx'', in_vnnlib_file = ''prop_1.vnnlib'',
       in_bound_width = ''1.250000'', in_wall_time = ''2.5000'', in_status = ''verified'',
       in_timed_out = ''''\<rparr>]"

text \<open>Three records of one benchmark, of which one has a bound width.\<close>

definition three_records :: "job_record list" where
  "three_records =
     [luna_record,
      luna_record\<lparr>slurm_id := ''2'', bound_width := None, lower_bounds := None,
                   upper_bounds := None, timed_out := True\<rparr>,
      luna_record\<lparr>slurm_id := ''3'', bound_width := None, lower_bounds := None,
                   upper_bounds := None, timed_out := True\<rparr>]"

section \<open>Records produced by the collector\<close>

text \<open>\<open>parsed_by rt tool_name data\<close>: \<open>data\<close> is what the parser chosen for
  \<open>tool_name\<close> returns on some path.\<close>

definition parsed_by :: "runtime \<Rightarrow> string \<Rightarrow> run_data \<Rightarrow> bool" where
  "parsed_by rt tool_name data =
     (\<exists>f. (if tool_name = ''abcrown'' then parse_abcrown_run_out rt f
           else parse_luna_run_out rt f) = Inr data)"

section \<open>Facts about the parsers and the collector\<close>

lemma and_then_Inr: "and_then r f = Inr v \<longleftrightarrow> (\<exists>x. r = Inr x \<and> f x = Inr v)"
  by (cases r) (simp_all add: and_then_def)

lemma and_then_Inl: "and_then r f = Inl e \<longleftrightarrow> r = Inl e \<or> (\<exists>x. r = Inr x \<and> f x = Inl e)"
  by (cases r) (simp_all add: and_then_def)

lemma float_all_length: "float_all rt ss = Inr vs \<Longrightarrow> length vs = length ss"
  by (induction ss arbitrary: vs) (auto split: sum.splits)

lemma split_where_not_Nil: "split_where P s \<noteq> []"
  by (induction s) (auto split: list.splits)

lemma abcrown_bounds_not_empty: "abcrown_bounds rt m \<noteq> Some []"
proof
  assume h: "abcrown_bounds rt m = Some []"
  then obtain g where fa: "float_all rt (map strip (split_on CHR '','' g)) = Inr []"
    by (auto simp: abcrown_bounds_def split: option.splits sum.splits)
  from float_all_length [OF fa] have "split_on CHR '','' g = []" by simp
  then show False by (simp add: split_on_def split_where_not_Nil)
qed

lemma luna_bounds_shape:
  assumes "luna_bounds rt c = Inr (lo, up)"
  shows "(lo = None \<and> up = None) \<or>
         (\<exists>ls us. lo = Some ls \<and> up = Some us \<and> ls \<noteq> [] \<and> length ls = length us)"
proof (cases "re_search rt OutputBounds c")
  case None
  with assms show ?thesis by (simp add: luna_bounds_def)
next
  case (Some g)
  show ?thesis
  proof (cases "re_findall rt (strip g) = []")
    case True
    with Some assms show ?thesis by (simp add: luna_bounds_def)
  next
    case False
    with Some assms obtain ls us where
      l: "float_all rt (map fst (re_findall rt (strip g))) = Inr ls" and
      u: "float_all rt (map snd (re_findall rt (strip g))) = Inr us" and
      r: "lo = Some ls" "up = Some us"
      by (auto simp: luna_bounds_def and_then_Inr Let_def)
    from float_all_length [OF l] float_all_length [OF u] False r show ?thesis
      by auto
  qed
qed

lemma parse_abcrown_not_empty:
  "parse_abcrown_run_out rt f = Inr d \<Longrightarrow>
   data_lower_bounds d \<noteq> Some [] \<and> data_upper_bounds d \<noteq> Some []"
  by (cases f)
     (auto simp: parse_abcrown_run_out_def and_then_Inr Let_def empty_run_data_def
         abcrown_bounds_not_empty)

lemma parse_luna_not_empty:
  "parse_luna_run_out rt f = Inr d \<Longrightarrow>
   data_lower_bounds d \<noteq> Some [] \<and> data_upper_bounds d \<noteq> Some []"
  by (cases f)
     (auto simp: parse_luna_run_out_def and_then_Inr empty_run_data_def
           dest!: luna_bounds_shape)

lemma parse_luna_equal_length:
  "parse_luna_run_out rt f = Inr d \<Longrightarrow>
   (data_lower_bounds d = None \<and> data_upper_bounds d = None) \<or>
   (\<exists>ls us. data_lower_bounds d = Some ls \<and> data_upper_bounds d = Some us \<and>
       length ls = length us)"
  by (cases f)
     (auto simp: parse_luna_run_out_def and_then_Inr empty_run_data_def
           dest!: luna_bounds_shape)

lemma collect_job_records:
  assumes "collect_job rt tn bn e = Inr rs" "r \<in> set rs"
  shows "\<exists>sid data lg. r = job_record_of rt tn bn sid data lg \<and> parsed_by rt tn data"
proof (cases "snd e")
  case (Dir files)
  show ?thesis
  proof (cases "tn = ''abcrown''")
    case True
    with assms Dir obtain sid data lg ro where
      "parse_abcrown_run_out rt ro = Inr data" "rs = [job_record_of rt tn bn sid data lg]"
      by (auto simp: collect_job_def and_then_Inr split: if_splits option.splits)
    with assms(2) True show ?thesis
      by (auto simp: parsed_by_def)
  next
    case False
    with assms Dir obtain sid data lg ro where
      "parse_luna_run_out rt ro = Inr data" "rs = [job_record_of rt tn bn sid data lg]"
      by (auto simp: collect_job_def and_then_Inr split: if_splits option.splits)
    with assms(2) False show ?thesis
      by (auto simp: parsed_by_def)
  qed
qed (use assms in \<open>auto simp: collect_job_def\<close>)

lemma collect_jobs_records:
  "collect_jobs rt tn bn es = Inr rs \<Longrightarrow> r \<in> set rs \<Longrightarrow>
   \<exists>sid data lg. r = job_record_of rt tn bn sid data lg \<and> parsed_by rt tn data"
proof (induction es arbitrary: rs)
  case Nil
  then show ?case by simp
next
  case (Cons e es)
  then obtain r1 rs1 where
    1: "collect_job rt tn bn e = Inr r1" and 2: "collect_jobs rt tn bn es = Inr rs1"
    and 3: "rs = r1 @ rs1"
    by (auto simp: and_then_Inr)
  with Cons.prems(2) have "r \<in> set r1 \<or> r \<in> set rs1" by simp
  then show ?case
    using collect_job_records [OF 1] Cons.IH [OF 2] by blast
qed

lemma collect_benchmark_records:
  assumes "collect_benchmark rt tn b = Inr rs" "r \<in> set rs"
  shows "\<exists>bn sid data lg. r = job_record_of rt tn bn sid data lg \<and> parsed_by rt tn data"
proof (cases "snd b")
  case (Dir es)
  with assms obtain js where "collect_jobs rt tn (fst b) js = Inr rs"
    by (auto simp: collect_benchmark_def and_then_Inr split: if_splits)
  from collect_jobs_records [OF this assms(2)] show ?thesis by blast
qed (use assms in \<open>auto simp: collect_benchmark_def\<close>)

lemma collect_benchmarks_records:
  "collect_benchmarks rt tn bs = Inr rs \<Longrightarrow> r \<in> set rs \<Longrightarrow>
   \<exists>bn sid data lg. r = job_record_of rt tn bn sid data lg \<and> parsed_by rt tn data"
proof (induction bs arbitrary: rs)
  case Nil
  then show ?case by simp
next
  case (Cons b bs)
  then obtain r1 rs1 where
    1: "collect_benchmark rt tn b = Inr r1" and 2: "collect_benchmarks rt tn bs = Inr rs1"
    and 3: "rs = r1 @ rs1"
    by (auto simp: and_then_Inr)
  with Cons.prems(2) have "r \<in> set r1 \<or> r \<in> set rs1" by simp
  then show ?case
    using collect_benchmark_records [OF 1] Cons.IH [OF 2] by blast
qed

lemma collected_records:
  assumes "collect_results_for_tool rt tn tp = Inr rs" "r \<in> set rs"
  shows "\<exists>bn sid data lg. r = job_record_of rt tn bn sid data lg \<and> parsed_by rt tn data"
proof -
  from assms obtain es where "collect_benchmarks rt tn (sort_key fst es) = Inr rs"
    by (auto simp: collect_results_for_tool_def split: option.splits node.splits)
  from collect_benchmarks_records [OF this assms(2)] show ?thesis .
qed

lemma parsed_by_not_empty:
  "parsed_by rt tn data \<Longrightarrow>
   data_lower_bounds data \<noteq> Some [] \<and> data_upper_bounds data \<noteq> Some []"
  unfolding parsed_by_def
  by (auto split: if_splits dest: parse_abcrown_not_empty parse_luna_not_empty)

lemma compute_bound_width_defined:
  "compute_bound_width rt lo up \<noteq> None \<longleftrightarrow>
   (\<exists>ls us. lo = Some ls \<and> up = Some us \<and> ls \<noteq> [] \<and> length ls = length us)"
  by (auto simp: compute_bound_width_def split: option.splits)

lemma widths_by_index:
  assumes "length ls = length us"
  shows "map (\<lambda>(l, u). fsub u l) (zip ls us) =
         map (\<lambda>i. fsub (us ! i) (ls ! i)) [0..<length ls]"
  using assms by (intro nth_equalityI) simp_all

lemma compute_bound_width_mean:
  assumes "ls \<noteq> []" "length ls = length us"
  shows "compute_bound_width rt (Some ls) (Some us) =
         Some (fdiv (float_sum rt (map (\<lambda>i. fsub (us ! i) (ls ! i)) [0..<length ls]))
                    (float_of_nat (length ls)))"
proof -
  from assms have "us \<noteq> []" by auto
  with assms show ?thesis
    by (simp add: compute_bound_width_def Let_def widths_by_index)
qed

section \<open>Bound width and presence of results\<close>

text \<open>On two empty lists the width is undefined; the collector never meets them
  (\<open>parsed_by_not_empty\<close>).\<close>

lemma compute_bound_width_empty: "compute_bound_width rt (Some []) (Some []) = None"
  by (simp add: compute_bound_width_def)

text \<open>
  C1. For every job record that \<open>collect_results_for_tool\<close> returns, \<open>bound_width\<close> is
  defined exactly when \<open>lower_bounds\<close> and \<open>upper_bounds\<close> are both present and of
  equal length; it is \<open>compute_bound_width\<close> of the two optional lists, and when the
  lists are present and of equal length \<open>n\<close> it is the mean over all indices \<open>i\<close> of
  \<open>upper_bounds[i] - lower_bounds[i]\<close> as Python computes it: the \<^verbatim>\<open>sum\<close> of the \<open>n\<close>
  float differences, divided by \<open>n\<close>.
\<close>

theorem bound_width_defined_iff:
  assumes "collect_results_for_tool rt tool_name tool_path = Inr results"
    and "r \<in> set results"
  shows "(bound_width r \<noteq> None \<longleftrightarrow>
            (\<exists>ls us. lower_bounds r = Some ls \<and> upper_bounds r = Some us \<and>
                     length ls = length us)) \<and>
         bound_width r = compute_bound_width rt (lower_bounds r) (upper_bounds r) \<and>
         (\<forall>ls us. lower_bounds r = Some ls \<and> upper_bounds r = Some us \<and>
                  length ls = length us \<longrightarrow>
            bound_width r =
              Some (fdiv (float_sum rt (map (\<lambda>i. fsub (us ! i) (ls ! i)) [0..<length ls]))
                         (float_of_nat (length ls))))"
proof -
  from collected_records [OF assms] obtain bn sid data lg where
    r: "r = job_record_of rt tool_name bn sid data lg" and p: "parsed_by rt tool_name data"
    by blast
  from parsed_by_not_empty [OF p] have
    ne: "data_lower_bounds data \<noteq> Some []" "data_upper_bounds data \<noteq> Some []"
    by simp_all
  have bw: "bound_width r = compute_bound_width rt (lower_bounds r) (upper_bounds r)"
    and lo: "lower_bounds r = data_lower_bounds data"
    and up: "upper_bounds r = data_upper_bounds data"
    by (simp_all add: r job_record_of_def Let_def)
  have iff: "bound_width r \<noteq> None \<longleftrightarrow>
      (\<exists>ls us. lower_bounds r = Some ls \<and> upper_bounds r = Some us \<and> length ls = length us)"
    unfolding bw compute_bound_width_defined using ne lo up by auto
  have mean: "bound_width r =
      Some (fdiv (float_sum rt (map (\<lambda>i. fsub (us ! i) (ls ! i)) [0..<length ls]))
                 (float_of_nat (length ls)))"
    if "lower_bounds r = Some ls" "upper_bounds r = Some us" "length ls = length us"
    for ls us
  proof -
    from that ne lo have "ls \<noteq> []" by auto
    from compute_bound_width_mean [OF this that(3)] that bw show ?thesis by simp
  qed
  from iff bw mean show ?thesis by blast
qed

text \<open>On the bounds \<open>[0.1, 0.2]\<close> and \<open>[0.3, 0.5]\<close> the differences are
  \<open>0.19999999999999998\<close> and \<open>0.3\<close>, their float sum is \<open>0.5\<close>, and the width is
  \<open>0.25\<close>.\<close>

theorem bound_width_defined_iff_witness:
  "collect_results_for_tool sample_runtime ''abcrown'' (Some tenths_tree) = Inr [tenths_record] \<and>
   lower_bounds tenths_record = Some [round_double (1 / 10), round_double (2 / 10)] \<and>
   upper_bounds tenths_record = Some [round_double (3 / 10), 1 / 2] \<and>
   fsub (round_double (3 / 10)) (round_double (1 / 10)) =
     7205759403792793 / 36028797018963968 \<and>
   fsub (1 / 2) (round_double (2 / 10)) = round_double (3 / 10) \<and>
   bound_width tenths_record = Some (1 / 4)"
proof -
  let ?ls = "[round_double (1 / 10), round_double (2 / 10)]"
  let ?us = "[round_double (3 / 10), 1 / 2 :: rat]"
  have run: "collect_results_for_tool sample_runtime ''abcrown'' (Some tenths_tree) =
             Inr [tenths_record]"
    by code_simp
  have mem: "tenths_record \<in> set [tenths_record]" by simp
  have lo: "lower_bounds tenths_record = Some ?ls"
    and up: "upper_bounds tenths_record = Some ?us"
    by (simp_all add: tenths_record_def)
  have len: "length ?ls = length ?us" by simp
  have d1: "fsub (round_double (3 / 10)) (round_double (1 / 10)) =
            7205759403792793 / 36028797018963968"
    by code_simp
  have d2: "fsub (1 / 2) (round_double (2 / 10)) = round_double (3 / 10)"
    by code_simp
  have val: "fdiv (float_sum sample_runtime (map (\<lambda>i. fsub (?us ! i) (?ls ! i)) [0..<length ?ls]))
                  (float_of_nat (length ?ls)) = 1 / 4"
    by code_simp
  from bound_width_defined_iff [OF run mem]
  have "lower_bounds tenths_record = Some ?ls \<and> upper_bounds tenths_record = Some ?us \<and>
        length ?ls = length ?us \<longrightarrow>
        bound_width tenths_record =
          Some (fdiv (float_sum sample_runtime
                        (map (\<lambda>i. fsub (?us ! i) (?ls ! i)) [0..<length ?ls]))
                     (float_of_nat (length ?ls)))"
    by blast
  with lo up len have "bound_width tenths_record =
          Some (fdiv (float_sum sample_runtime
                        (map (\<lambda>i. fsub (?us ! i) (?ls ! i)) [0..<length ?ls]))
                     (float_of_nat (length ?ls)))"
    by blast
  with val have "bound_width tenths_record = Some (1 / 4)" by (simp only:)
  with run lo up d1 d2 show ?thesis by blast
qed

text \<open>
  C2, as stated: for every job record produced by the collector, \<open>has_result\<close> is true
  iff \<open>timed_out\<close> is true or \<open>bound_width\<close> is defined. It fails on \<open>ragged_tree\<close>: the
  log of abcrown there has a lower list of one value and an upper list of two, so
  both lists are present, \<open>has_result\<close> is true, the job did not time out, and
  \<open>bound_width\<close> is undefined.
\<close>

theorem has_result_counterexample:
  "collect_results_for_tool sample_runtime ''abcrown'' (Some ragged_tree) = Inr [ragged_record] \<and>
   has_result ragged_record \<and>
   \<not> (timed_out ragged_record \<or> bound_width ragged_record \<noteq> None)"
proof -
  have "collect_results_for_tool sample_runtime ''abcrown'' (Some ragged_tree) = Inr [ragged_record]"
    by code_simp
  then show ?thesis by (simp add: ragged_record_def)
qed

text \<open>
  C2, amended: for every job record produced by the collector, \<open>has_result\<close> is true
  iff \<open>timed_out\<close> is true or \<open>lower_bounds\<close> and \<open>upper_bounds\<close> are both present. A
  defined \<open>bound_width\<close> implies \<open>has_result\<close>; and \<open>has_result\<close> is true iff
  \<open>timed_out\<close> is true or \<open>bound_width\<close> is defined for every record of a tool other
  than abcrown, and for every record whose two lists, when both present, have the
  same length.
\<close>

theorem has_result_iff_bounds_present:
  assumes "collect_results_for_tool rt tool_name tool_path = Inr results"
    and "r \<in> set results"
  shows "(has_result r \<longleftrightarrow>
            timed_out r \<or> (lower_bounds r \<noteq> None \<and> upper_bounds r \<noteq> None)) \<and>
         (bound_width r \<noteq> None \<longrightarrow> has_result r) \<and>
         (tool_name \<noteq> ''abcrown'' \<longrightarrow>
            (has_result r \<longleftrightarrow> timed_out r \<or> bound_width r \<noteq> None)) \<and>
         ((\<forall>ls us. lower_bounds r = Some ls \<and> upper_bounds r = Some us \<longrightarrow>
                   length ls = length us) \<longrightarrow>
            (has_result r \<longleftrightarrow> timed_out r \<or> bound_width r \<noteq> None))"
proof -
  from collected_records [OF assms] obtain bn sid data lg where
    r: "r = job_record_of rt tool_name bn sid data lg" and p: "parsed_by rt tool_name data"
    by blast
  from parsed_by_not_empty [OF p] have
    ne: "lower_bounds r \<noteq> Some []" "upper_bounds r \<noteq> Some []"
    by (simp_all add: r job_record_of_def Let_def)
  have hr: "has_result r \<longleftrightarrow>
      timed_out r \<or> (lower_bounds r \<noteq> None \<and> upper_bounds r \<noteq> None)"
    by (simp add: r job_record_of_def Let_def)
  have bw: "bound_width r \<noteq> None \<longleftrightarrow>
      (\<exists>ls us. lower_bounds r = Some ls \<and> upper_bounds r = Some us \<and> length ls = length us)"
  proof -
    have "bound_width r = compute_bound_width rt (lower_bounds r) (upper_bounds r)"
      by (simp add: r job_record_of_def Let_def)
    then have "bound_width r \<noteq> None \<longleftrightarrow>
        (\<exists>ls us. lower_bounds r = Some ls \<and> upper_bounds r = Some us \<and> ls \<noteq> [] \<and>
           length ls = length us)"
      by (simp only: compute_bound_width_defined)
    with ne show ?thesis by fastforce
  qed
  have luna: "has_result r \<longleftrightarrow> timed_out r \<or> bound_width r \<noteq> None"
    if "tool_name \<noteq> ''abcrown''"
  proof -
    from p that obtain f where "parse_luna_run_out rt f = Inr data"
      by (auto simp: parsed_by_def)
    from parse_luna_equal_length [OF this]
    have "(lower_bounds r = None \<and> upper_bounds r = None) \<or>
          (\<exists>ls us. lower_bounds r = Some ls \<and> upper_bounds r = Some us \<and>
             length ls = length us)"
      by (simp add: r job_record_of_def Let_def)
    with hr bw show ?thesis by auto
  qed
  have same: "has_result r \<longleftrightarrow> timed_out r \<or> bound_width r \<noteq> None"
    if "\<forall>ls us. lower_bounds r = Some ls \<and> upper_bounds r = Some us \<longrightarrow> length ls = length us"
    using that hr bw by auto
  from hr bw luna same show ?thesis by blast
qed

theorem has_result_iff_bounds_present_witness:
  "collect_results_for_tool sample_runtime ''abcrown'' (Some abcrown_tree) = Inr [abcrown_record] \<and>
   has_result abcrown_record \<and> \<not> timed_out abcrown_record \<and>
   lower_bounds abcrown_record \<noteq> None \<and> upper_bounds abcrown_record \<noteq> None \<and>
   bound_width abcrown_record \<noteq> None"
proof -
  have run: "collect_results_for_tool sample_runtime ''abcrown'' (Some abcrown_tree) =
             Inr [abcrown_record]"
    by code_simp
  have mem: "abcrown_record \<in> set [abcrown_record]" by simp
  have f: "\<not> timed_out abcrown_record" "bound_width abcrown_record \<noteq> None"
    by (simp_all add: abcrown_record_def)
  from has_result_iff_bounds_present [OF run mem] f
  have "has_result abcrown_record \<and> lower_bounds abcrown_record \<noteq> None \<and>
        upper_bounds abcrown_record \<noteq> None"
    by blast
  with run f show ?thesis by simp
qed

section \<open>Common instances of the two tools\<close>

lemma filter_keys_in:
  assumes "C \<subseteq> set (map k xs)"
  shows "set (map k (filter (\<lambda>r. k r \<in> C) xs)) = C"
proof
  show "set (map k (filter (\<lambda>r. k r \<in> C) xs)) \<subseteq> C" by auto
  show "C \<subseteq> set (map k (filter (\<lambda>r. k r \<in> C) xs))"
  proof
    fix c assume c: "c \<in> C"
    with assms obtain r where "r \<in> set xs" "k r = c" by auto
    with c show "c \<in> set (map k (filter (\<lambda>r. k r \<in> C) xs))" by force
  qed
qed

text \<open>
  C3. For every pair of record lists, each list returned by \<open>filter_common_instances\<close>
  has at most as many records as the list of that tool it was filtered from, and the
  set of \<open>(benchmark, slurm_id)\<close> keys of the filtered abcrown list equals that of the
  filtered luna list: both are the intersection of the two tools' key sets of records
  with \<open>has_result\<close> true.
\<close>

theorem filter_common_instances_keys:
  "length (fst (filter_common_instances abcrown_results luna_results))
     \<le> length abcrown_results \<and>
   length (snd (filter_common_instances abcrown_results luna_results))
     \<le> length luna_results \<and>
   set (map instance_key (fst (filter_common_instances abcrown_results luna_results))) =
     set (map instance_key (filter has_result abcrown_results)) \<inter>
     set (map instance_key (filter has_result luna_results)) \<and>
   set (map instance_key (snd (filter_common_instances abcrown_results luna_results))) =
     set (map instance_key (fst (filter_common_instances abcrown_results luna_results)))"
proof -
  let ?C = "set (map instance_key (filter has_result abcrown_results)) \<inter>
            set (map instance_key (filter has_result luna_results))"
  have fst_eq: "fst (filter_common_instances abcrown_results luna_results) =
                filter (\<lambda>r. instance_key r \<in> ?C) abcrown_results"
    and snd_eq: "snd (filter_common_instances abcrown_results luna_results) =
                 filter (\<lambda>r. instance_key r \<in> ?C) luna_results"
    by (simp_all add: filter_common_instances_def Let_def)
  have a: "set (map instance_key (filter (\<lambda>r. instance_key r \<in> ?C) abcrown_results)) = ?C"
    by (rule filter_keys_in) auto
  have l: "set (map instance_key (filter (\<lambda>r. instance_key r \<in> ?C) luna_results)) = ?C"
    by (rule filter_keys_in) auto
  show ?thesis
    unfolding fst_eq snd_eq a l by simp
qed

text \<open>
  C4. For every pair of record lists, \<open>get_common_bounds_instances\<close> and
  \<open>get_common_finished_instances\<close> return the same set of keys: the keys that belong
  to a record with a defined \<open>bound_width\<close> in the first list and to one in the second.
\<close>

theorem common_finished_is_common_bounds:
  "get_common_finished_instances abcrown_results luna_results =
     get_common_bounds_instances abcrown_results luna_results \<and>
   get_common_bounds_instances abcrown_results luna_results =
     {k. (\<exists>a. a \<in> set abcrown_results \<and> instance_key a = k \<and> bound_width a \<noteq> None) \<and>
         (\<exists>l. l \<in> set luna_results \<and> instance_key l = k \<and> bound_width l \<noteq> None)}"
  by (force simp: get_common_finished_instances_def get_common_bounds_instances_def Let_def)

section \<open>The per-instance table\<close>

lemma format_fixed_zero: "format_fixed 6 0 = ''0.000000''"
  by code_simp

lemma write_instance_csv_line:
  "i < length results \<Longrightarrow>
   write_instance_csv rt results ! Suc i = cells (instance_row_of rt (results ! i))"
  by (simp add: write_instance_csv_def)

text \<open>
  C6, as stated: every missing value in a raw numeric or bound column (\<open>wall_time\<close>,
  \<open>bound_width\<close>, \<open>lower_bounds\<close>, \<open>upper_bounds\<close>) of the per-instance table renders as
  \<open>"--"\<close>. It fails for \<open>wall_time\<close>: the record below has no wall time, and its
  \<open>wall_time\<close> cell (column 7 of line 1, after the header) is the empty string.
\<close>

theorem missing_wall_time_counterexample:
  "wall_time (ragged_record\<lparr>wall_time := None\<rparr>) = None \<and>
   fieldnames ! 7 = ''wall_time'' \<and>
   write_instance_csv sample_runtime [ragged_record\<lparr>wall_time := None\<rparr>] ! 1 ! 7 = '''' \<and>
   write_instance_csv sample_runtime [ragged_record\<lparr>wall_time := None\<rparr>] ! 1 ! 7 \<noteq> ''--''"
  by (simp add: write_instance_csv_def fieldnames_def cells_def instance_row_of_def
      ragged_record_def)

text \<open>
  C6, amended: in the per-instance table written by \<open>write_instance_csv\<close>, a missing
  \<open>bound_width\<close>, \<open>lower_bounds\<close> or \<open>upper_bounds\<close> renders as \<open>"--"\<close>, and a missing
  \<open>wall_time\<close>, \<open>onnx_file\<close>, \<open>vnnlib_file\<close> or \<open>status\<close> renders as the empty string.
  The cells of record \<open>i\<close> are line \<open>i + 1\<close> of the table, in the order of \<open>fieldnames\<close>.
\<close>

theorem missing_values_rendering:
  assumes "i < length results"
  shows "write_instance_csv rt results ! Suc i = cells (instance_row_of rt (results ! i)) \<and>
         (bound_width (results ! i) = None \<longrightarrow>
            row_bound_width (instance_row_of rt (results ! i)) = ''--'') \<and>
         (lower_bounds (results ! i) = None \<longrightarrow>
            row_lower_bounds (instance_row_of rt (results ! i)) = ''--'') \<and>
         (upper_bounds (results ! i) = None \<longrightarrow>
            row_upper_bounds (instance_row_of rt (results ! i)) = ''--'') \<and>
         (wall_time (results ! i) = None \<longrightarrow>
            row_wall_time (instance_row_of rt (results ! i)) = '''') \<and>
         (onnx_file (results ! i) = None \<longrightarrow>
            row_onnx_file (instance_row_of rt (results ! i)) = '''') \<and>
         (vnnlib_file (results ! i) = None \<longrightarrow>
            row_vnnlib_file (instance_row_of rt (results ! i)) = '''') \<and>
         (status (results ! i) = None \<longrightarrow>
            row_status (instance_row_of rt (results ! i)) = '''')"
  using assms
  by (simp add: write_instance_csv_line instance_row_of_def bounds_cell_def str_or_empty_def)

theorem missing_values_rendering_witness:
  "(0::nat) < length [ragged_record] \<and>
   bound_width ([ragged_record] ! 0) = None \<and>
   onnx_file ([ragged_record] ! 0) = None \<and>
   write_instance_csv sample_runtime [ragged_record] ! Suc 0 =
     [''abcrown'', ''mnist'', ''1'', '''', '''', ''unknown'', '''', ''11.5000'', ''--'',
      ''[1.0]'', ''[1.0, 2.0]'']"
proof -
  have len: "(0::nat) < length [ragged_record]" by simp
  have none: "bound_width ([ragged_record] ! 0) = None" "onnx_file ([ragged_record] ! 0) = None"
    by (simp_all add: ragged_record_def)
  have cs: "cells (instance_row_of sample_runtime ragged_record) =
      [''abcrown'', ''mnist'', ''1'', '''', '''', ''unknown'', '''', ''11.5000'', ''--'',
       ''[1.0]'', ''[1.0, 2.0]'']"
    by code_simp
  from missing_values_rendering [OF len, of sample_runtime] cs
  have "write_instance_csv sample_runtime [ragged_record] ! Suc 0 =
      [''abcrown'', ''mnist'', ''1'', '''', '''', ''unknown'', '''', ''11.5000'', ''--'',
       ''[1.0]'', ''[1.0, 2.0]'']"
    by simp
  with len none show ?thesis by simp
qed

text \<open>
  C9. For every job record whose \<open>wall_time\<close> is defined and equal to \<open>0.0\<close>,
  \<open>write_instance_csv\<close> renders the \<open>wall_time\<close> cell as the empty string, as it does
  for a record that differs only in having no \<open>wall_time\<close>: the writer tests the truth
  value. The \<open>bound_width\<close> cell tests presence: a \<open>bound_width\<close> of \<open>0.0\<close> renders as
  \<open>"0.000000"\<close>.
\<close>

theorem zero_wall_time_renders_empty:
  assumes "i < length results" and "wall_time (results ! i) = Some 0"
  shows "fieldnames ! 7 = ''wall_time'' \<and> fieldnames ! 8 = ''bound_width'' \<and>
         write_instance_csv rt results ! Suc i ! 7 = '''' \<and>
         write_instance_csv rt (results[i := (results ! i)\<lparr>wall_time := None\<rparr>]) ! Suc i ! 7 = '''' \<and>
         (bound_width (results ! i) = Some 0 \<longrightarrow>
            write_instance_csv rt results ! Suc i ! 8 = ''0.000000'')"
  using assms
  by (simp add: write_instance_csv_line fieldnames_def cells_def instance_row_of_def
      format_fixed_zero)

theorem zero_wall_time_renders_empty_witness:
  "(0::nat) < length [luna_record\<lparr>wall_time := Some 0, bound_width := Some 0\<rparr>] \<and>
   wall_time ([luna_record\<lparr>wall_time := Some 0, bound_width := Some 0\<rparr>] ! 0) = Some 0 \<and>
   write_instance_csv sample_runtime
     [luna_record\<lparr>wall_time := Some 0, bound_width := Some 0\<rparr>] ! Suc 0 ! 7 = '''' \<and>
   write_instance_csv sample_runtime
     [luna_record\<lparr>wall_time := Some 0, bound_width := Some 0\<rparr>] ! Suc 0 ! 8 = ''0.000000''"
proof -
  let ?rs = "[luna_record\<lparr>wall_time := Some 0, bound_width := Some 0\<rparr>]"
  have len: "(0::nat) < length ?rs" by simp
  have wt: "wall_time (?rs ! 0) = Some 0" and bw: "bound_width (?rs ! 0) = Some 0"
    by simp_all
  from zero_wall_time_renders_empty [OF len wt, of sample_runtime] bw
  have "write_instance_csv sample_runtime ?rs ! Suc 0 ! 7 = '''' \<and>
        write_instance_csv sample_runtime ?rs ! Suc 0 ! 8 = ''0.000000''"
    by blast
  with len wt show ?thesis by simp
qed

section \<open>Status normalization\<close>

text \<open>
  C7. Status normalization is tool-specific. The raw token is \<^verbatim>\<open>group(1)\<close> of the
  \<^verbatim>\<open>Result:\<close> pattern, compared after lowercasing. For abcrown, a token \<open>unsat\<close>
  yields \<open>verified\<close> and any other token is passed through lowercased. For luna, a
  token \<open>unsat\<close> or \<open>sat\<close> yields \<open>verified\<close> and any other token yields \<open>unknown\<close>;
  when there is no \<^verbatim>\<open>Result:\<close> token, the token of the older \<^verbatim>\<open>Property status:\<close>
  pattern is compared after uppercasing, and \<open>VERIFIED\<close> or \<open>VIOLATED\<close> yields
  \<open>verified\<close>, anything else \<open>unknown\<close>. With no token at all the status stays unset.
\<close>

theorem status_normalization:
  "(parse_abcrown_run_out rt (File content) = Inr a \<longrightarrow>
      (\<forall>tok. re_search rt ResultLine content = Some tok \<longrightarrow>
         (py_lower tok = ''unsat'' \<longrightarrow> data_status a = Some ''verified'') \<and>
         (py_lower tok \<noteq> ''unsat'' \<longrightarrow> data_status a = Some (py_lower tok))) \<and>
      (re_search rt ResultLine content = None \<longrightarrow> data_status a = None)) \<and>
   (parse_luna_run_out rt (File content) = Inr l \<longrightarrow>
      (\<forall>tok. re_search rt ResultLine content = Some tok \<longrightarrow>
         (py_lower tok = ''unsat'' \<or> py_lower tok = ''sat'' \<longrightarrow>
            data_status l = Some ''verified'') \<and>
         (py_lower tok \<noteq> ''unsat'' \<and> py_lower tok \<noteq> ''sat'' \<longrightarrow>
            data_status l = Some ''unknown'')) \<and>
      (re_search rt ResultLine content = None \<longrightarrow>
         (\<forall>tok. re_search rt PropertyStatus content = Some tok \<longrightarrow>
            (py_upper tok = ''VERIFIED'' \<or> py_upper tok = ''VIOLATED'' \<longrightarrow>
               data_status l = Some ''verified'') \<and>
            (py_upper tok \<noteq> ''VERIFIED'' \<and> py_upper tok \<noteq> ''VIOLATED'' \<longrightarrow>
               data_status l = Some ''unknown'')) \<and>
         (re_search rt PropertyStatus content = None \<longrightarrow> data_status l = None)))"
proof -
  have a: "data_status a = abcrown_status rt content"
    if "parse_abcrown_run_out rt (File content) = Inr a"
    using that by (auto simp: parse_abcrown_run_out_def and_then_Inr Let_def)
  have l: "data_status l = luna_status rt content"
    if "parse_luna_run_out rt (File content) = Inr l"
    using that by (auto simp: parse_luna_run_out_def and_then_Inr)
  show ?thesis
    by (auto simp: a l abcrown_status_def luna_status_def Let_def)
qed

theorem status_normalization_witness:
  "parse_abcrown_run_out sample_runtime (File abcrown_log) =
     Inr \<lparr>data_lower_bounds = Some [1 / 2, 1], data_upper_bounds = Some [3 / 2, 3],
          data_status = Some ''verified'', data_time = Some (3 / 2),
          data_onnx_file = Some ''net.onnx'', data_vnnlib_file = Some ''prop_1.vnnlib''\<rparr> \<and>
   parse_luna_run_out sample_runtime (File luna_log) =
     Inr \<lparr>data_lower_bounds = Some [1 / 2, 1], data_upper_bounds = Some [3 / 2, 3],
          data_status = Some ''verified'', data_time = None,
          data_onnx_file = Some ''net.onnx'', data_vnnlib_file = Some ''prop_1.vnnlib''\<rparr> \<and>
   re_search sample_runtime ResultLine abcrown_log = Some ''unsat'' \<and>
   (\<exists>a. parse_abcrown_run_out sample_runtime (File abcrown_log) = Inr a \<and>
        data_status a = Some ''verified'')"
proof -
  let ?a = "\<lparr>data_lower_bounds = Some [1 / 2, 1 :: rat], data_upper_bounds = Some [3 / 2, 3 :: rat],
          data_status = Some ''verified'', data_time = Some (3 / 2 :: rat),
          data_onnx_file = Some ''net.onnx'', data_vnnlib_file = Some ''prop_1.vnnlib''\<rparr>"
  let ?l = "\<lparr>data_lower_bounds = Some [1 / 2, 1 :: rat], data_upper_bounds = Some [3 / 2, 3 :: rat],
          data_status = Some ''verified'', data_time = None :: rat option,
          data_onnx_file = Some ''net.onnx'', data_vnnlib_file = Some ''prop_1.vnnlib''\<rparr>"
  have pa: "parse_abcrown_run_out sample_runtime (File abcrown_log) = Inr ?a"
    by code_simp
  have pl: "parse_luna_run_out sample_runtime (File luna_log) = Inr ?l"
    by code_simp
  have tok: "re_search sample_runtime ResultLine abcrown_log = Some ''unsat''"
    by code_simp
  have low: "py_lower ''unsat'' = ''unsat''"
    by code_simp
  from status_normalization [of sample_runtime abcrown_log ?a ?l] pa tok low
  have "data_status ?a = Some ''verified''"
    by blast
  with pa pl tok show ?thesis by blast
qed

section \<open>Job directories with a malformed number\<close>

lemma slurm_component_prefix:
  assumes "startswith name ''slurm-''"
  shows "\<exists>b rest. split_on CHR ''-'' name = ''slurm'' # b # rest"
proof -
  from assms have "take (length ''slurm-'') name = ''slurm-''"
    unfolding startswith_def .
  then obtain t where name: "name = ''slurm-'' @ t"
    by (metis append_take_drop_id)
  obtain b rest where "split_where (\<lambda>x. x = CHR ''-'') t = b # rest"
    using split_where_not_Nil by (cases "split_where (\<lambda>x. x = CHR ''-'') t") auto
  then show ?thesis by (simp add: name split_on_def)
qed

lemma slurm_component_second:
  "startswith name ''slurm-'' \<Longrightarrow> slurm_component name = Inr (split_on CHR ''-'' name ! 1)"
  using slurm_component_prefix [of name] by (auto simp: slurm_component_def)

lemma py_int_error: "py_int s = Inl e \<Longrightarrow> e = ValueError PyInt s"
  by (auto simp: py_int_def split: option.splits)

lemma slurm_sort_key_error: "slurm_sort_key name = Inl e \<Longrightarrow> \<exists>s. e = ValueError PyInt s"
  by (auto simp: slurm_sort_key_def slurm_component_second and_then_def
      split: if_splits dest: py_int_error)

lemma sort_keys_error: "sort_keys es = Inl e \<Longrightarrow> \<exists>s. e = ValueError PyInt s"
  by (induction es) (auto simp: and_then_Inl dest: slurm_sort_key_error)

lemma sort_keys_fails:
  "e \<in> set es \<Longrightarrow> slurm_sort_key (fst e) = Inl err \<Longrightarrow> \<exists>err'. sort_keys es = Inl err'"
proof (induction es)
  case Nil
  then show ?case by simp
next
  case (Cons x xs)
  show ?case
  proof (cases "slurm_sort_key (fst x)")
    case (Inl a)
    then show ?thesis by (simp add: and_then_def)
  next
    case (Inr k)
    with Cons have "e \<in> set xs" by auto
    from Cons.IH [OF this Cons.prems(2)] obtain err' where "sort_keys xs = Inl err'" ..
    with Inr show ?thesis by (simp add: and_then_def)
  qed
qed

lemma py_float_error: "py_float rt s = Inl e \<Longrightarrow> e = ValueError PyFloat s"
  by (auto simp: py_float_def split: option.splits)

lemma float_all_error: "float_all rt ss = Inl e \<Longrightarrow> \<exists>s. e = ValueError PyFloat s"
  by (induction ss) (auto split: sum.splits dest: py_float_error)

lemma parse_abcrown_error:
  "parse_abcrown_run_out rt f = Inl e \<Longrightarrow> \<exists>s. e = ValueError PyFloat s"
  by (cases f)
     (auto simp: parse_abcrown_run_out_def and_then_Inl Let_def
           split: option.splits dest: py_float_error)

lemma parse_luna_error:
  "parse_luna_run_out rt f = Inl e \<Longrightarrow> \<exists>s. e = ValueError PyFloat s"
  by (cases f)
     (auto simp: parse_luna_run_out_def luna_bounds_def and_then_Inl Let_def
           split: option.splits if_splits dest: float_all_error)

lemma parse_output_log_error:
  "parse_output_log rt f = Inl e \<Longrightarrow> \<exists>s. e = ValueError PyFloat s"
  by (cases f)
     (auto simp: parse_output_log_def and_then_Inl
           split: option.splits dest: py_float_error)

lemma collect_job_error:
  assumes "collect_job rt tn bn e = Inl err"
  shows "\<exists>s. err = ValueError PyFloat s"
proof (cases "snd e")
  case (Dir files)
  with assms have sw: "startswith (fst e) ''slurm-''"
    by (auto simp: collect_job_def split: if_splits)
  from assms Dir sw slurm_component_second [OF sw] show ?thesis
    by (auto simp: collect_job_def and_then_Inl split: option.splits if_splits
        dest: parse_abcrown_error parse_luna_error parse_output_log_error)
qed (use assms in \<open>auto simp: collect_job_def\<close>)

lemma collect_jobs_error:
  "collect_jobs rt tn bn es = Inl err \<Longrightarrow> \<exists>s. err = ValueError PyFloat s"
  by (induction es) (auto simp: and_then_Inl dest: collect_job_error)

lemma collect_benchmark_error:
  assumes "collect_benchmark rt tn b = Inl err"
  shows "\<exists>c s. err = ValueError c s"
proof (cases "snd b")
  case (Dir es)
  with assms have "sorted_jobs es = Inl err \<or>
      (\<exists>js. collect_jobs rt tn (fst b) js = Inl err)"
    by (auto simp: collect_benchmark_def and_then_Inl split: if_splits)
  then show ?thesis
    by (auto simp: sorted_jobs_def and_then_Inl dest: sort_keys_error collect_jobs_error)
qed (use assms in \<open>auto simp: collect_benchmark_def\<close>)

lemma collect_benchmarks_error:
  "collect_benchmarks rt tn bs = Inl err \<Longrightarrow> \<exists>c s. err = ValueError c s"
  by (induction bs) (auto simp: and_then_Inl dest: collect_benchmark_error)

lemma collect_benchmarks_fails:
  "b \<in> set bs \<Longrightarrow> collect_benchmark rt tn b = Inl err \<Longrightarrow>
   \<exists>err'. collect_benchmarks rt tn bs = Inl err'"
proof (induction bs)
  case Nil
  then show ?case by simp
next
  case (Cons x xs)
  show ?case
  proof (cases "collect_benchmark rt tn x")
    case (Inl a)
    then show ?thesis by (simp add: and_then_def)
  next
    case (Inr rs)
    with Cons have "b \<in> set xs" by auto
    from Cons.IH [OF this Cons.prems(2)] obtain err' where
      "collect_benchmarks rt tn xs = Inl err'" ..
    with Inr show ?thesis by (simp add: and_then_def)
  qed
qed

text \<open>
  C10. If a benchmark directory (a directory under the tool's root that is not named
  \<open>options\<close>) has an entry whose name starts with \<open>slurm-\<close> and whose second
  hyphen-separated component \<^verbatim>\<open>int\<close> rejects, the sort of that directory's entries
  raises \<^verbatim>\<open>ValueError\<close> from \<^verbatim>\<open>int\<close>, and \<open>collect_results_for_tool\<close> returns no
  list of records: it ends with an uncaught \<^verbatim>\<open>ValueError\<close> instead of skipping the
  entry.
\<close>

theorem malformed_job_directory_aborts:
  assumes "(bname, Dir jobs) \<in> set entries" and "bname \<noteq> ''options''"
    and "(jname, jnode) \<in> set jobs" and "startswith jname ''slurm-''"
    and "py_int (split_on CHR ''-'' jname ! 1) = Inl err"
  shows "(\<exists>s. sorted_jobs jobs = Inl (ValueError PyInt s)) \<and>
         (\<exists>c s. collect_results_for_tool rt tool_name (Some (Dir entries)) =
                  Inl (ValueError c s))"
proof -
  from assms(4,5) have "slurm_sort_key (fst (jname, jnode)) = Inl err"
    by (simp add: slurm_sort_key_def slurm_component_second and_then_def)
  from sort_keys_fails [OF assms(3) this] obtain e1 where e1: "sort_keys jobs = Inl e1" ..
  from sort_keys_error [OF e1] obtain s where s: "e1 = ValueError PyInt s" ..
  from e1 s have sj: "sorted_jobs jobs = Inl (ValueError PyInt s)"
    by (simp add: sorted_jobs_def and_then_def)
  from sj assms(2) have
    "collect_benchmark rt tool_name (bname, Dir jobs) = Inl (ValueError PyInt s)"
    by (simp add: collect_benchmark_def and_then_def)
  moreover from assms(1) have "(bname, Dir jobs) \<in> set (sort_key fst entries)"
    by simp
  ultimately obtain e2 where
    e2: "collect_benchmarks rt tool_name (sort_key fst entries) = Inl e2"
    using collect_benchmarks_fails by blast
  from collect_benchmarks_error [OF e2] obtain c s' where "e2 = ValueError c s'" by blast
  with e2 have "collect_results_for_tool rt tool_name (Some (Dir entries)) =
                Inl (ValueError c s')"
    by (simp add: collect_results_for_tool_def)
  with sj show ?thesis by blast
qed

theorem malformed_job_directory_aborts_witness:
  "broken_tree = Dir [(''mnist'', Dir [(''slurm-1'', Dir [(''run.out'', File abcrown_log)]),
                                        (''slurm-abc'', Dir [])])] \<and>
   startswith ''slurm-abc'' ''slurm-'' \<and>
   py_int (split_on CHR ''-'' ''slurm-abc'' ! 1) = Inl (ValueError PyInt ''abc'') \<and>
   (\<exists>c s. collect_results_for_tool sample_runtime ''abcrown'' (Some broken_tree) =
            Inl (ValueError c s))"
proof -
  let ?jobs = "[(''slurm-1'', Dir [(''run.out'', File abcrown_log)]), (''slurm-abc'', Dir [])]"
  have t: "broken_tree = Dir [(''mnist'', Dir ?jobs)]"
    by (simp add: broken_tree_def)
  have b: "(''mnist'', Dir ?jobs) \<in> set [(''mnist'', Dir ?jobs)]" by simp
  have n: "''mnist'' \<noteq> ''options''" by simp
  have j: "(''slurm-abc'', Dir []) \<in> set ?jobs" by simp
  have sw: "startswith ''slurm-abc'' ''slurm-''" by code_simp
  have bad: "py_int (split_on CHR ''-'' ''slurm-abc'' ! 1) = Inl (ValueError PyInt ''abc'')"
    by code_simp
  from malformed_job_directory_aborts [OF b n j sw bad, of sample_runtime "''abcrown''"]
  have "\<exists>c s. collect_results_for_tool sample_runtime ''abcrown''
                 (Some (Dir [(''mnist'', Dir ?jobs)])) = Inl (ValueError c s)"
    by blast
  with t sw bad show ?thesis by simp
qed

section \<open>The joined tables\<close>

lemma dict_set_keys: "fst ` set (dict_set k v d) = insert k (fst ` set d)"
  by (induction d) auto

lemma dict_set_distinct: "distinct (map fst d) \<Longrightarrow> distinct (map fst (dict_set k v d))"
  by (induction d) (auto simp: dict_set_keys)

lemma dict_set_lookup:
  "distinct (map fst d) \<Longrightarrow> map_of (dict_set k v d) = (map_of d)(k \<mapsto> v)"
  by (induction d) (auto simp: fun_eq_iff)

lemma foldl_dict_set_distinct:
  "distinct (map fst d) \<Longrightarrow>
   distinct (map fst (foldl (\<lambda>m row. dict_set (kf row) (vf row) m) d rows))"
  by (induction rows arbitrary: d) (auto simp: dict_set_distinct)

lemma foldl_dict_set_keys:
  "fst ` set (foldl (\<lambda>m row. dict_set (kf row) (vf row) m) d rows) =
   fst ` set d \<union> kf ` set rows"
  by (induction rows arbitrary: d) (auto simp: dict_set_keys)

lemma parse_instances_dict:
  "distinct (map fst (parse_instances lines)) \<and>
   fst ` set (parse_instances lines) =
     (\<lambda>row. (in_benchmark row, in_onnx_file row, in_vnnlib_file row)) ` set lines"
  unfolding parse_instances_def
  by (simp add: foldl_dict_set_distinct foldl_dict_set_keys)

lemma instance_keys_eq:
  "instance_keys a l b =
     {(onnx, vnnlib). (b, onnx, vnnlib) \<in> set (map fst a) \<union> set (map fst l)}"
  by (force simp: instance_keys_def)

lemma benchmarks_eq: "benchmarks a l = fst ` (set (map fst a) \<union> set (map fst l))"
  by (force simp: benchmarks_def)

lemma finite_instance_keys: "finite (instance_keys a l b)"
  by (simp add: instance_keys_def)

lemma benchmark_data_keys:
  "map (\<lambda>w. (j_onnx_file w, j_vnnlib_file w)) (benchmark_data a l b) =
     sorted_list_of_set (instance_keys a l b)"
  by (simp add: benchmark_data_def case_prod_beta o_def)

lemma benchmark_data_fields:
  assumes "w \<in> set (benchmark_data a l b)"
  shows "abcrown_bound_width w = get_field a (b, j_onnx_file w, j_vnnlib_file w) inst_bound_width \<and>
         luna_bound_width w = get_field l (b, j_onnx_file w, j_vnnlib_file w) inst_bound_width \<and>
         abcrown_runtime w = get_field a (b, j_onnx_file w, j_vnnlib_file w) inst_wall_time \<and>
         luna_runtime w = get_field l (b, j_onnx_file w, j_vnnlib_file w) inst_wall_time"
  using assms by (auto simp: benchmark_data_def)

lemma map_of_absent: "key \<notin> fst ` set d \<Longrightarrow> map_of d key = None"
  by (simp add: map_of_eq_None_iff)

text \<open>
  C8. For every pair of parsed instance mappings, the joiner writes the benchmarks
  present in either mapping, each once and in sorted order; for each of them, the
  rows are keyed by the sorted union of that benchmark's \<open>(onnx_file, vnnlib_file)\<close>
  keys, one row per key; and each row carries both tools' \<open>bound_width\<close> and
  \<open>wall_time\<close> under that key, with the empty string in a tool's columns when that
  tool's mapping lacks the key.
\<close>

theorem join_instances_rows:
  "map fst (join_instances a l) =
     sorted_list_of_set (fst ` (set (map fst a) \<union> set (map fst l))) \<and>
   distinct (map fst (join_instances a l)) \<and>
   (\<forall>p \<in> set (join_instances a l).
      map (\<lambda>w. (j_onnx_file w, j_vnnlib_file w)) (snd p) =
        sorted_list_of_set
          {(onnx, vnnlib). (fst p, onnx, vnnlib) \<in> set (map fst a) \<union> set (map fst l)} \<and>
      distinct (map (\<lambda>w. (j_onnx_file w, j_vnnlib_file w)) (snd p)) \<and>
      (\<forall>w \<in> set (snd p).
         (case map_of a (fst p, j_onnx_file w, j_vnnlib_file w) of
            None \<Rightarrow> abcrown_bound_width w = '''' \<and> abcrown_runtime w = ''''
          | Some i \<Rightarrow> abcrown_bound_width w = inst_bound_width i \<and>
                      abcrown_runtime w = inst_wall_time i) \<and>
         (case map_of l (fst p, j_onnx_file w, j_vnnlib_file w) of
            None \<Rightarrow> luna_bound_width w = '''' \<and> luna_runtime w = ''''
          | Some i \<Rightarrow> luna_bound_width w = inst_bound_width i \<and>
                      luna_runtime w = inst_wall_time i) \<and>
         ((fst p, j_onnx_file w, j_vnnlib_file w) \<notin> set (map fst a) \<longrightarrow>
            abcrown_bound_width w = '''' \<and> abcrown_runtime w = '''') \<and>
         ((fst p, j_onnx_file w, j_vnnlib_file w) \<notin> set (map fst l) \<longrightarrow>
            luna_bound_width w = '''' \<and> luna_runtime w = '''')))"
proof -
  have names: "map fst (join_instances a l) =
      sorted_list_of_set (fst ` (set (map fst a) \<union> set (map fst l)))"
    by (simp add: join_instances_def o_def benchmarks_eq)
  have rows: "map (\<lambda>w. (j_onnx_file w, j_vnnlib_file w)) (snd p) =
        sorted_list_of_set
          {(onnx, vnnlib). (fst p, onnx, vnnlib) \<in> set (map fst a) \<union> set (map fst l)}"
    if "p \<in> set (join_instances a l)" for p
  proof -
    from that have "snd p = benchmark_data a l (fst p)"
      by (auto simp: join_instances_def)
    then show ?thesis
      by (simp only: benchmark_data_keys instance_keys_eq)
  qed
  have fields:
    "(case map_of a (fst p, j_onnx_file w, j_vnnlib_file w) of
        None \<Rightarrow> abcrown_bound_width w = '''' \<and> abcrown_runtime w = ''''
      | Some i \<Rightarrow> abcrown_bound_width w = inst_bound_width i \<and>
                  abcrown_runtime w = inst_wall_time i) \<and>
     (case map_of l (fst p, j_onnx_file w, j_vnnlib_file w) of
        None \<Rightarrow> luna_bound_width w = '''' \<and> luna_runtime w = ''''
      | Some i \<Rightarrow> luna_bound_width w = inst_bound_width i \<and>
                  luna_runtime w = inst_wall_time i) \<and>
     ((fst p, j_onnx_file w, j_vnnlib_file w) \<notin> set (map fst a) \<longrightarrow>
        abcrown_bound_width w = '''' \<and> abcrown_runtime w = '''') \<and>
     ((fst p, j_onnx_file w, j_vnnlib_file w) \<notin> set (map fst l) \<longrightarrow>
        luna_bound_width w = '''' \<and> luna_runtime w = '''')"
    if "p \<in> set (join_instances a l)" "w \<in> set (snd p)" for p w
  proof -
    from that have "w \<in> set (benchmark_data a l (fst p))"
      by (auto simp: join_instances_def)
    from benchmark_data_fields [OF this] show ?thesis
      by (auto simp: get_field_def split: option.splits dest!: map_of_absent)
  qed
  have dn: "distinct (map fst (join_instances a l))"
    unfolding names by (rule distinct_sorted_list_of_set)
  have dr: "distinct (map (\<lambda>w. (j_onnx_file w, j_vnnlib_file w)) (snd p))"
    if "p \<in> set (join_instances a l)" for p
    unfolding rows [OF that] by (rule distinct_sorted_list_of_set)
  from names dn rows dr fields show ?thesis by blast
qed

theorem join_instances_rows_witness:
  "main abcrown_lines luna_lines =
     [(''mnist'',
       [\<lparr>j_onnx_file = ''net.onnx'', j_vnnlib_file = ''prop_1.vnnlib'',
         abcrown_bound_width = ''1.500000'', luna_bound_width = ''1.250000'',
         abcrown_runtime = ''11.5000'', luna_runtime = ''2.5000''\<rparr>,
        \<lparr>j_onnx_file = ''net.onnx'', j_vnnlib_file = ''prop_2.vnnlib'',
         abcrown_bound_width = '''', luna_bound_width = ''--'',
         abcrown_runtime = '''', luna_runtime = ''60.0000''\<rparr>])] \<and>
   map fst (main abcrown_lines luna_lines) =
     sorted_list_of_set (fst ` (set (map fst (parse_instances abcrown_lines)) \<union>
                                set (map fst (parse_instances luna_lines))))"
proof -
  have run: "main abcrown_lines luna_lines =
     [(''mnist'',
       [\<lparr>j_onnx_file = ''net.onnx'', j_vnnlib_file = ''prop_1.vnnlib'',
         abcrown_bound_width = ''1.500000'', luna_bound_width = ''1.250000'',
         abcrown_runtime = ''11.5000'', luna_runtime = ''2.5000''\<rparr>,
        \<lparr>j_onnx_file = ''net.onnx'', j_vnnlib_file = ''prop_2.vnnlib'',
         abcrown_bound_width = '''', luna_bound_width = ''--'',
         abcrown_runtime = '''', luna_runtime = ''60.0000''\<rparr>])]"
    by code_simp
  from join_instances_rows [of "parse_instances abcrown_lines" "parse_instances luna_lines"]
  have "map fst (join_instances (parse_instances abcrown_lines) (parse_instances luna_lines)) =
     sorted_list_of_set (fst ` (set (map fst (parse_instances abcrown_lines)) \<union>
                                set (map fst (parse_instances luna_lines))))"
    by blast
  with run show ?thesis by (simp add: main_def)
qed

section \<open>Percentages of an aggregate row\<close>

lemma round_half_even_error: "\<bar>of_int (round_half_even y) - y\<bar> \<le> 1 / 2"
proof -
  have "of_int \<lfloor>y\<rfloor> \<le> y" "y < of_int \<lfloor>y\<rfloor> + 1" by linarith+
  then show ?thesis
    by (auto simp: round_half_even_def Let_def)
qed

lemma round_half_even_nonneg: "0 \<le> y \<Longrightarrow> 0 \<le> round_half_even y"
proof -
  assume "0 \<le> y"
  then have "0 \<le> \<lfloor>y\<rfloor>" by simp
  then show ?thesis by (auto simp: round_half_even_def Let_def)
qed

lemma two_powi_nat: "0 \<le> k \<Longrightarrow> (2::rat) powi k = 2 ^ nat k"
  by (simp add: power_int_def)

lemma floor_log2_bounds:
  assumes "0 < x"
  shows "2 powi (floor_log2 x) \<le> x \<and> x < 2 powi (floor_log2 x + 1)"
proof -
  obtain p q where pq: "quotient_of x = (p, q)" by (cases "quotient_of x")
  then have q: "0 < q" and x: "x = of_int p / of_int q"
    by (simp_all add: quotient_of_denom_pos quotient_of_div)
  from assms x q have p: "0 < p"
    by (simp add: zero_less_divide_iff)
  define bp where "bp = bitlen p"
  define bq where "bq = bitlen q"
  from bitlen_bounds [OF p] have p1: "2 ^ nat (bp - 1) \<le> p" and p2: "p < 2 ^ nat bp"
    by (simp_all add: bp_def)
  from bitlen_bounds [OF q] have q1: "2 ^ nat (bq - 1) \<le> q" and q2: "q < 2 ^ nat bq"
    by (simp_all add: bq_def)
  have bp1: "1 \<le> bp" using p bitlen_eq_zero_iff [of p] bitlen_nonneg [of p] by (simp add: bp_def)
  have bq1: "1 \<le> bq" using q bitlen_eq_zero_iff [of q] bitlen_nonneg [of q] by (simp add: bq_def)
  have P1: "(2::rat) powi (bp - 1) \<le> of_int p"
  proof -
    from p1 have "(of_int (2 ^ nat (bp - 1)) :: rat) \<le> of_int p" by (simp only: of_int_le_iff)
    with bp1 show ?thesis by (simp add: two_powi_nat)
  qed
  have P2: "of_int p < (2::rat) powi bp"
  proof -
    from p2 have "(of_int p :: rat) < of_int (2 ^ nat bp)" by (simp only: of_int_less_iff)
    with bp1 show ?thesis by (simp add: two_powi_nat)
  qed
  have Q1: "(2::rat) powi (bq - 1) \<le> of_int q"
  proof -
    from q1 have "(of_int (2 ^ nat (bq - 1)) :: rat) \<le> of_int q" by (simp only: of_int_le_iff)
    with bq1 show ?thesis by (simp add: two_powi_nat)
  qed
  have Q2: "of_int q < (2::rat) powi bq"
  proof -
    from q2 have "(of_int q :: rat) < of_int (2 ^ nat bq)" by (simp only: of_int_less_iff)
    with bq1 show ?thesis by (simp add: two_powi_nat)
  qed
  have qpos: "(0::rat) < of_int q" using q by simp
  have ppos: "(0::rat) < of_int p" using p by simp
  have up: "x < 2 powi (bp - bq + 1)"
  proof -
    have "of_int p * (2::rat) powi (bq - 1) < 2 powi bp * of_int q"
      by (meson P2 Q1 less_eq_rat_def mult_less_le_imp_less ppos
          zero_less_numeral zero_less_power_int)
    then have "x < 2 powi bp / 2 powi (bq - 1)"
      using qpos by (simp add: x field_simps)
    also have "(2::rat) powi bp / 2 powi (bq - 1) = 2 powi (bp - bq + 1)"
      by (simp add: power_int_diff power_int_add)
    finally show ?thesis .
  qed
  have lo: "2 powi (bp - bq - 1) < x"
  proof -
    have "(2::rat) powi (bp - 1) * of_int q < of_int p * 2 powi bq"
      using P1 Q2 mult_le_less_imp_less qpos by fastforce
    then have "2 powi (bp - 1) / 2 powi bq < x"
      using qpos by (simp add: x field_simps)
    moreover have "(2::rat) powi (bp - 1) / 2 powi bq = 2 powi (bp - bq - 1)"
      by (simp add: power_int_diff power_int_add)
    ultimately show ?thesis by simp
  qed
  show ?thesis
  proof (cases "2 powi (bp - bq) \<le> x")
    case True
    then have "floor_log2 x = bp - bq"
      by (simp add: floor_log2_def pq bp_def bq_def)
    with True up show ?thesis by simp
  next
    case False
    then have "floor_log2 x = bp - bq - 1"
      by (simp add: floor_log2_def pq bp_def bq_def)
    with False lo show ?thesis by simp
  qed
qed


lemma round_double_nonneg: "0 \<le> x \<Longrightarrow> 0 \<le> round_double x"
  by (auto simp: round_double_def Let_def sgn_if intro!: mult_nonneg_nonneg round_half_even_nonneg)

lemma round_double_error:
  assumes "0 \<le> x"
  shows "\<bar>round_double x - x\<bar> \<le> x / 2 ^ 53 + 2 powi (- 1075)"
proof (cases "x = 0")
  case True
  then show ?thesis by (simp add: round_double_def)
next
  case False
  with assms have pos: "0 < x" by simp
  define e where "e = floor_log2 x"
  define k where "k = max e (- 1022) - 52"
  define y where "y = x / 2 powi k"
  have kpos: "(0::rat) < 2 powi k" by simp
  have rd: "round_double x = of_int (round_half_even y) * 2 powi k"
    using pos by (simp add: round_double_def Let_def e_def k_def y_def)
  have xy: "x = y * 2 powi k" by (simp add: y_def)
  have "\<bar>round_double x - x\<bar> = \<bar>of_int (round_half_even y) - y\<bar> * 2 powi k"
  proof -
    have "round_double x - x = (of_int (round_half_even y) - y) * 2 powi k"
      by (simp add: rd algebra_simps) (simp add: y_def)
    then show ?thesis by (simp add: abs_mult)
  qed
  also have "\<dots> \<le> 1 / 2 * 2 powi k"
    using round_half_even_error [of y] kpos by (intro mult_right_mono) simp_all
  also have "1 / 2 * (2::rat) powi k = 2 powi (k - 1)"
    by (simp add: power_int_diff)
  finally have err: "\<bar>round_double x - x\<bar> \<le> 2 powi (k - 1)" .
  show ?thesis
  proof (cases "- 1022 \<le> e")
    case True
    then have "k - 1 = e - 53" by (simp add: k_def)
    then have "(2::rat) powi (k - 1) = 2 powi (e - 53)"
      by (rule arg_cong)
    also have "\<dots> = 2 powi e / 2 powi 53"
      by (rule power_int_diff) simp
    also have "\<dots> = 2 powi e / 2 ^ 53"
      by (simp only: power_int_numeral)
    also have "\<dots> \<le> x / 2 ^ 53"
      using floor_log2_bounds [OF pos] by (simp add: e_def divide_right_mono)
    finally have "(2::rat) powi (k - 1) \<le> x / 2 ^ 53" .
    moreover have "(0::rat) \<le> 2 powi (- 1075)" by simp
    ultimately show ?thesis using err by linarith
  next
    case False
    then have "k - 1 = - 1075" by (simp add: k_def)
    with err have "\<bar>round_double x - x\<bar> \<le> 2 powi (- 1075)" by simp
    moreover have "0 \<le> x / 2 ^ 53" using assms by simp
    ultimately show ?thesis by linarith
  qed
qed

lemma round_double_within:
  assumes "0 \<le> x" "x \<le> B"
  shows "\<bar>round_double x - x\<bar> \<le> (B + 1) / 2 ^ 53"
proof -
  have "(2::rat) powi (- 1075) \<le> 1 / 2 ^ 53" by simp
  moreover from assms(2) have "x / 2 ^ 53 \<le> B / 2 ^ 53"
    by (simp add: divide_right_mono)
  moreover have "(B + 1) / 2 ^ 53 = B / 2 ^ 53 + 1 / 2 ^ 53"
    by (simp add: add_divide_distrib)
  ultimately show ?thesis
    using round_double_error [OF assms(1)] by linarith
qed

lemma percentage_nonneg: "0 \<le> percentage c n"
  by (simp add: percentage_def round_double_nonneg)

lemma percentage_error:
  assumes "0 < n" "c \<le> n"
  shows "\<bar>percentage c n - of_nat c / of_nat n * 100\<bar> \<le> 401 / 2 ^ 53"
proof -
  define u :: rat where "u = 1 / 2 ^ 53"
  have u: "0 \<le> u" "u \<le> 1 / 1024" by (simp_all add: u_def)
  define x :: rat where "x = of_nat c / of_nat n"
  define a where "a = round_double x"
  define p where "p = round_double (a * 100)"
  from assms have x0: "0 \<le> x" and x1: "x \<le> 1"
    by (simp_all add: x_def)
  from round_double_within [OF x0 x1] have ax: "\<bar>a - x\<bar> \<le> 2 * u"
    by (simp add: a_def u_def)
  from round_double_nonneg [OF x0] have a0: "0 \<le> a" by (simp add: a_def)
  from ax x1 u have a2: "a \<le> 2" by linarith
  from a0 have b0: "0 \<le> a * 100" by simp
  from a2 have b2: "a * 100 \<le> 200" by simp
  from round_double_within [OF b0 b2] have pa: "\<bar>p - a * 100\<bar> \<le> 201 * u"
    by (simp add: p_def u_def)
  have "percentage c n = p"
    using assms(1) by (simp add: percentage_def p_def a_def x_def)
  moreover from ax pa have "\<bar>p - x * 100\<bar> \<le> 401 * u" by linarith
  ultimately show ?thesis by (simp only: x_def u_def)
qed

lemma percentages_exact:
  assumes "0 < n" "s + t = n"
  shows "of_nat s / of_nat n * 100 + of_nat t / of_nat n * 100 = (100 :: rat)"
proof -
  from assms have nn: "(of_nat s :: rat) + of_nat t = of_nat n"
    by (simp flip: of_nat_add)
  from assms have n0: "(of_nat n :: rat) \<noteq> 0" by simp
  have "of_nat s / of_nat n * 100 + of_nat t / of_nat n * 100 =
        (of_nat s + of_nat t) / (of_nat n :: rat) * 100"
    by (simp add: add_divide_distrib distrib_right)
  also have "\<dots> = 100" using n0 by (simp add: nn)
  finally show ?thesis .
qed

lemma percentage_sum_error:
  assumes "0 < n" "s + t = n"
  shows "\<bar>fadd (percentage s n) (percentage t n) - 100\<bar> \<le> 1 / 2 ^ 43"
proof -
  define u :: rat where "u = 1 / 2 ^ 53"
  have u: "0 \<le> u" "u \<le> 1 / 1024" by (simp_all add: u_def)
  define p where "p = percentage s n"
  define q where "q = percentage t n"
  define ps :: rat where "ps = of_nat s / of_nat n * 100"
  define qs :: rat where "qs = of_nat t / of_nat n * 100"
  from assms have sn: "s \<le> n" and tn: "t \<le> n" by simp_all
  from percentages_exact [OF assms] have one: "ps + qs = 100"
    by (simp add: ps_def qs_def)
  from percentage_error [OF assms(1) sn] have pe: "\<bar>p - ps\<bar> \<le> 401 * u"
    by (simp only: p_def ps_def u_def)
  from percentage_error [OF assms(1) tn] have qe: "\<bar>q - qs\<bar> \<le> 401 * u"
    by (simp only: q_def qs_def u_def)
  from pe qe one have pq: "\<bar>p + q - 100\<bar> \<le> 802 * u" by linarith
  have pq0: "0 \<le> p + q"
    by (simp add: p_def q_def percentage_nonneg)
  from pq u have pq1: "p + q \<le> 101" by linarith
  from round_double_within [OF pq0 pq1]
  have "\<bar>round_double (p + q) - (p + q)\<bar> \<le> 102 * u" by (simp add: u_def)
  with pq u have "\<bar>round_double (p + q) - 100\<bar> \<le> 1024 * u" by linarith
  then show ?thesis by (simp add: fadd_def p_def q_def u_def)
qed

lemma aggregate_rows:
  assumes "w \<in> set (compute_aggregates rt results cb cf)"
  shows "\<exists>b. b \<in> set (map benchmark results) \<and>
             w = aggregate_of rt cb cf b (filter (\<lambda>r. benchmark r = b) results)"
  using assms by (auto simp: compute_aggregates_def)

lemma filter_benchmark_not_empty:
  "b \<in> set (map benchmark results) \<Longrightarrow> 0 < length (filter (\<lambda>r. benchmark r = b) results)"
  by (auto simp: filter_empty_conv)

text \<open>
  C5, as stated: for every aggregate row with \<open>total_instances > 0\<close>, the float sum
  \<open>solved_pct + timeout_pct\<close> equals \<open>100.0\<close>. It fails for a benchmark of three
  records of which one has a bound width: \<open>1 / 3 * 100\<close> is \<open>33.33333333333333\<close>,
  \<open>2 / 3 * 100\<close> is \<open>66.66666666666666\<close>, and their sum is \<open>99.99999999999999\<close>, one
  unit in the last place below \<open>100.0\<close>.
\<close>

theorem percentages_counterexample:
  "map (\<lambda>w. (total_instances w, solved_count w, timeout_count w, solved_pct w, timeout_pct w,
             fadd (solved_pct w) (timeout_pct w)))
       (compute_aggregates sample_runtime three_records None None) =
     [(3, 1, 2, 2345624805922133 / 70368744177664, 2345624805922133 / 35184372088832,
       7036874417766399 / 70368744177664)] \<and>
   (7036874417766399 / 70368744177664 :: rat) < 100"
proof -
  have "map (\<lambda>w. (total_instances w, solved_count w, timeout_count w, solved_pct w, timeout_pct w,
             fadd (solved_pct w) (timeout_pct w)))
       (compute_aggregates sample_runtime three_records None None) =
     [(3, 1, 2, 2345624805922133 / 70368744177664, 2345624805922133 / 35184372088832,
       7036874417766399 / 70368744177664)]"
    by code_simp
  then show ?thesis by simp
qed

text \<open>
  C5, amended: for every aggregate row computed by \<open>compute_aggregates\<close> (each has
  \<open>total_instances > 0\<close>), \<open>solved_pct + timeout_pct\<close> equals \<open>100.0\<close> within rounding:
  the float sum differs from \<open>100\<close> by at most \<open>2\<^sup>-\<^sup>4\<^sup>3\<close>, and the percentages
  before rounding add up to \<open>100\<close>, because
  \<open>solved_count + timeout_count = total_instances\<close> (the two counts partition the
  benchmark's instances by whether \<open>bound_width\<close> is defined).
\<close>

theorem percentages_sum_within_rounding:
  assumes "w \<in> set (compute_aggregates rt results common_bounds_instances
                          common_finished_instances)"
  shows "0 < total_instances w \<and>
         solved_count w + timeout_count w = total_instances w \<and>
         of_nat (solved_count w) / of_nat (total_instances w) * 100 +
           of_nat (timeout_count w) / of_nat (total_instances w) * 100 = (100 :: rat) \<and>
         solved_pct w = percentage (solved_count w) (total_instances w) \<and>
         timeout_pct w = percentage (timeout_count w) (total_instances w) \<and>
         \<bar>fadd (solved_pct w) (timeout_pct w) - 100\<bar> \<le> 1 / 2 ^ 43"
proof -
  from aggregate_rows [OF assms] obtain b where
    b: "b \<in> set (map benchmark results)" and
    w: "w = aggregate_of rt common_bounds_instances common_finished_instances b
              (filter (\<lambda>r. benchmark r = b) results)"
    by blast
  let ?is = "filter (\<lambda>r. benchmark r = b) results"
  have tot: "total_instances w = length ?is"
    and sol: "solved_count w = length (filter (\<lambda>i. bound_width i \<noteq> None) ?is)"
    and tmo: "timeout_count w = length (filter (\<lambda>i. bound_width i = None) ?is)"
    and sp: "solved_pct w = percentage (solved_count w) (total_instances w)"
    and tp: "timeout_pct w = percentage (timeout_count w) (total_instances w)"
    by (simp_all add: w aggregate_of_def Let_def)
  from filter_benchmark_not_empty [OF b] tot have pos: "0 < total_instances w" by simp
  have part: "solved_count w + timeout_count w = total_instances w"
    unfolding sol tmo tot
    using sum_length_filter_compl [of "\<lambda>i. bound_width i \<noteq> None" ?is] by simp
  from percentages_exact [OF pos part]
  have exact: "of_nat (solved_count w) / of_nat (total_instances w) * 100 +
           of_nat (timeout_count w) / of_nat (total_instances w) * 100 = (100 :: rat)" .
  from percentage_sum_error [OF pos part] sp tp
  have "\<bar>fadd (solved_pct w) (timeout_pct w) - 100\<bar> \<le> 1 / 2 ^ 43" by simp
  with pos part exact sp tp show ?thesis by blast
qed

theorem percentages_sum_within_rounding_witness:
  "compute_aggregates sample_runtime [luna_record] None None =
     [\<lparr>agg_benchmark = ''mnist'', total_instances = 1, solved_count = 1, solved_pct = 100,
       timeout_count = 0, timeout_pct = 0, verified_count = 1, verified_pct = 100,
       avg_bound_width = Some (3 / 2), avg_lower_bound = Some (3 / 4),
       avg_upper_bound = Some (9 / 4), avg_runtime = Some (23 / 2)\<rparr>] \<and>
   \<bar>fadd 100 0 - 100\<bar> \<le> (1 / 2 ^ 43 :: rat)"
proof -
  let ?w = "\<lparr>agg_benchmark = ''mnist'', total_instances = 1, solved_count = 1,
       solved_pct = 100 :: rat,
       timeout_count = 0, timeout_pct = 0 :: rat, verified_count = 1, verified_pct = 100 :: rat,
       avg_bound_width = Some (3 / 2 :: rat), avg_lower_bound = Some (3 / 4 :: rat),
       avg_upper_bound = Some (9 / 4 :: rat), avg_runtime = Some (23 / 2 :: rat)\<rparr>"
  have run: "compute_aggregates sample_runtime [luna_record] None None = [?w]"
    by code_simp
  then have mem: "?w \<in> set (compute_aggregates sample_runtime [luna_record] None None)"
    by simp
  from percentages_sum_within_rounding [OF mem]
  have "\<bar>fadd (solved_pct ?w) (timeout_pct ?w) - 100\<bar> \<le> 1 / 2 ^ 43" by blast
  with run show ?thesis by simp
qed

end
